theory Spec2Isabelle
  imports Main
begin

section \<open>Python values read from the spreadsheet\<close>

text \<open>
  \<^verbatim>\<open>ws.iter_rows(values_only=True)\<close> yields one tuple of cell values per line of the
  sheet. A cell value is \<^verbatim>\<open>None\<close>, a \<^verbatim>\<open>bool\<close>, an \<^verbatim>\<open>int\<close> or a \<^verbatim>\<open>str\<close>;
  cells holding floats or dates are outside this model. A Python \<^verbatim>\<open>str\<close> is a
  \<^typ>\<open>string\<close> whose characters are the code points below 256, one \<^typ>\<open>char\<close> per
  code point. An \<^verbatim>\<open>int\<close> cell has at most 4300 decimal digits, the bound that
  \<^verbatim>\<open>int()\<close> enforced when the workbook was loaded, so \<^verbatim>\<open>str()\<close> of it does not raise.
\<close>

datatype cell = CNone | CBool bool | CInt int | CStr string

type_synonym row = "cell list"

text \<open>Truth value of a cell, as \<^verbatim>\<open>not x\<close> and \<^verbatim>\<open>all([...])\<close> test it.\<close>

fun truthy :: "cell \<Rightarrow> bool" where
  "truthy CNone = False"
| "truthy (CBool b) = b"
| "truthy (CInt i) = (i \<noteq> 0)"
| "truthy (CStr s) = (s \<noteq> [])"

text \<open>
  The text of an exception, \<^verbatim>\<open>str(e)\<close>. \<open>IntLiteralError s\<close> is the text of the
  \<^verbatim>\<open>ValueError\<close> that \<^verbatim>\<open>int(s)\<close> raises for a string \<open>s\<close> it cannot convert
  (\<^verbatim>\<open>invalid literal for int() with base 10: ...\<close>, or the digit-limit text);
  its exact wording, which involves \<^verbatim>\<open>repr\<close>, is not spelled out.
\<close>

datatype message = Msg string | IntLiteralError string

subsection \<open>\<^verbatim>\<open>str()\<close>, \<^verbatim>\<open>str.strip()\<close> and \<^verbatim>\<open>int()\<close>\<close>

fun str_nat :: "nat \<Rightarrow> string" where
  "str_nat n =
     (if n < 10 then [''0123456789'' ! n]
      else str_nat (n div 10) @ [''0123456789'' ! (n mod 10)])"

declare str_nat.simps [simp del]

definition str_int :: "int \<Rightarrow> string" where
  "str_int i = (if i < 0 then CHR ''-'' # str_nat (nat (- i)) else str_nat (nat i))"

fun py_str :: "cell \<Rightarrow> string" where
  "py_str CNone = ''None''"
| "py_str (CBool b) = (if b then ''True'' else ''False'')"
| "py_str (CInt i) = str_int i"
| "py_str (CStr s) = s"

text \<open>\<^verbatim>\<open>str.isspace\<close> on the code points below 256.\<close>

definition is_space :: "char \<Rightarrow> bool" where
  "is_space c \<longleftrightarrow>
     c \<in> set [CHR 0x09, CHR 0x0A, CHR 0x0B, CHR 0x0C, CHR 0x0D,
              CHR 0x1C, CHR 0x1D, CHR 0x1E, CHR 0x1F, CHR 0x20, CHR 0x85, CHR 0xA0]"

definition strip :: "string \<Rightarrow> string" where
  "strip s = rev (dropWhile is_space (rev (dropWhile is_space s)))"

text \<open>
  \<^verbatim>\<open>int(s)\<close> for a string: whitespace around the literal is dropped (the ASCII
  separators \<^verbatim>\<open>\x1c\<close>..\<^verbatim>\<open>\x1f\<close> are not whitespace here), then an optional sign,
  then decimal digits, where single underscores may stand between two digits.
  More than \<open>int_max_str_digits\<close> digits are refused.
\<close>

definition is_int_space :: "char \<Rightarrow> bool" where
  "is_int_space c \<longleftrightarrow>
     c \<in> set [CHR 0x09, CHR 0x0A, CHR 0x0B, CHR 0x0C, CHR 0x0D, CHR 0x20, CHR 0x85, CHR 0xA0]"

definition is_digit :: "char \<Rightarrow> bool" where
  "is_digit c \<longleftrightarrow> c \<in> set ''0123456789''"

definition digit_val :: "char \<Rightarrow> nat" where
  "digit_val c = length (takeWhile (\<lambda>d. d \<noteq> c) ''0123456789'')"

fun digits_ok :: "string \<Rightarrow> bool" where
  "digits_ok [] = False"
| "digits_ok [c] = is_digit c"
| "digits_ok (c # d # cs) =
     (is_digit c \<and> (if d = CHR ''_'' then digits_ok cs else digits_ok (d # cs)))"

definition int_max_str_digits :: nat where
  "int_max_str_digits = 4300"

definition int_of_str :: "string \<Rightarrow> int option" where
  "int_of_str s =
     (let t = rev (dropWhile is_int_space (rev (dropWhile is_int_space s)));
          neg = (t \<noteq> [] \<and> hd t = CHR ''-'');
          body = (if t \<noteq> [] \<and> (hd t = CHR ''-'' \<or> hd t = CHR ''+'') then tl t else t);
          ds = filter is_digit body
      in if digits_ok body \<and> length ds \<le> int_max_str_digits
         then Some (let v = int (foldl (\<lambda>a c. 10 * a + digit_val c) 0 ds)
                    in if neg then - v else v)
         else None)"

fun py_int :: "cell \<Rightarrow> message + int" where
  "py_int CNone =
     Inl (Msg (''int() argument must be a string, a bytes-like object or a real number, not ''
               @ [CHR 0x27] @ ''NoneType'' @ [CHR 0x27]))"
| "py_int (CBool b) = Inr (if b then 1 else 0)"
| "py_int (CInt i) = Inr i"
| "py_int (CStr s) = (case int_of_str s of Some i \<Rightarrow> Inr i | None \<Rightarrow> Inl (IntLiteralError s))"

section \<open>The data model of \<^verbatim>\<open>selenium_automation.py\<close>\<close>

record Product =
  cliente :: string
  produto :: string
  quantidade :: int
  categoria :: string

text \<open>One entry of \<^verbatim>\<open>stats["erros_detalhados"]\<close>: the keys \<^verbatim>\<open>linha\<close>,
  \<^verbatim>\<open>produto\<close> and \<^verbatim>\<open>erro\<close>.\<close>

record detalhe =
  linha :: nat
  d_produto :: cell
  d_erro :: message

record stats =
  total :: nat
  sucesso :: nat
  erro :: nat
  erros_detalhados :: "detalhe list"

section \<open>The outside world: browser and progress callback\<close>

text \<open>
  Every call that leaves the engine is recorded in a trace, oldest first. The world is
  a function of the trace so far and the call: \<open>None\<close> when the call returns,
  \<open>Some m\<close> when it raises an \<^verbatim>\<open>Exception\<close> whose text is \<open>m\<close>. The calls are
  \<^verbatim>\<open>_report_progress\<close> (the callback, if any, and the log line), \<^verbatim>\<open>driver.get\<close>, the
  four form actions and \<^verbatim>\<open>driver.quit\<close>. Sleeping and logging are not modelled.
\<close>

datatype call =
    Report_progress string nat nat
  | Driver_get string
  | Limpar_form
  | Fill_campo_texto string string
  | Select_categoria string
  | Submit_form
  | Driver_quit

type_synonym trace = "call list"
type_synonym env = "trace \<Rightarrow> call \<Rightarrow> string option"

definition perform :: "env \<Rightarrow> call \<Rightarrow> trace \<Rightarrow> message option \<times> trace" where
  "perform env c tr = (map_option Msg (env tr c), tr @ [c])"

definition report_progress :: "env \<Rightarrow> string \<Rightarrow> nat \<Rightarrow> nat \<Rightarrow> trace \<Rightarrow> message option \<times> trace" where
  "report_progress env m current tot tr = perform env (Report_progress m current tot) tr"

definition navigate :: "env \<Rightarrow> string \<Rightarrow> trace \<Rightarrow> message option \<times> trace" where
  "navigate env url tr =
     (case report_progress env (''Acessando '' @ url) 0 0 tr of
        (Some e, tr1) \<Rightarrow> (Some e, tr1)
      | (None, tr1) \<Rightarrow> perform env (Driver_get url) tr1)"

text \<open>The three form actions log and re-raise; \<^verbatim>\<open>_limpar_form\<close> swallows its exception.\<close>

definition fill_campo_texto :: "env \<Rightarrow> string \<Rightarrow> string \<Rightarrow> trace \<Rightarrow> message option \<times> trace" where
  "fill_campo_texto env field_id v tr = perform env (Fill_campo_texto field_id v) tr"

definition select_categoria :: "env \<Rightarrow> string \<Rightarrow> trace \<Rightarrow> message option \<times> trace" where
  "select_categoria env c tr = perform env (Select_categoria c) tr"

definition submit_form :: "env \<Rightarrow> trace \<Rightarrow> message option \<times> trace" where
  "submit_form env tr = perform env Submit_form tr"

definition limpar_form :: "env \<Rightarrow> trace \<Rightarrow> trace" where
  "limpar_form env tr = snd (perform env Limpar_form tr)"

text \<open>\<^verbatim>\<open>fechar\<close>: the constructor has set \<^verbatim>\<open>self.driver\<close>, so \<^verbatim>\<open>driver.quit()\<close> is called;
  there is no \<^verbatim>\<open>try\<close> around it, and what it raises leaves \<^verbatim>\<open>fechar\<close>.\<close>

definition fechar :: "env \<Rightarrow> trace \<Rightarrow> message option \<times> trace" where
  "fechar env tr = perform env Driver_quit tr"

section \<open>\<^verbatim>\<open>preencher_produto\<close>\<close>

definition preencher_produto :: "env \<Rightarrow> Product \<Rightarrow> trace \<Rightarrow> bool \<times> trace" where
  "preencher_produto env p tr =
     (case fill_campo_texto env ''cliente'' (cliente p) (limpar_form env tr) of
        (Some e, t) \<Rightarrow> (False, t)
      | (None, t) \<Rightarrow>
     (case fill_campo_texto env ''produto'' (produto p) t of
        (Some e, t) \<Rightarrow> (False, t)
      | (None, t) \<Rightarrow>
     (case fill_campo_texto env ''quantidade'' (str_int (quantidade p)) t of
        (Some e, t) \<Rightarrow> (False, t)
      | (None, t) \<Rightarrow>
     (case select_categoria env (categoria p) t of
        (Some e, t) \<Rightarrow> (False, t)
      | (None, t) \<Rightarrow>
     (case submit_form env t of
        (Some e, t) \<Rightarrow> (False, t)
      | (None, t) \<Rightarrow> (True, t))))))"

section \<open>\<^verbatim>\<open>processar_planilha\<close>\<close>

definition campos_vazios :: string where
  "campos_vazios = ''Campos obrigat'' @ [CHR 0xF3] @ ''rios vazios''"

definition erro_critico :: string where
  "erro_critico = ''ERRO CR'' @ [CHR 0xCD] @ ''TICO''"

text \<open>\<^verbatim>\<open>cliente, produto, quantidade, categoria = row[:4]\<close>\<close>

definition unpack4 :: "row \<Rightarrow> message + cell \<times> cell \<times> cell \<times> cell" where
  "unpack4 r =
     (case take 4 r of
        [c, p, q, k] \<Rightarrow> Inr (c, p, q, k)
      | xs \<Rightarrow> Inl (Msg (''not enough values to unpack (expected 4, got ''
                        @ str_nat (length xs) @ '')'')))"

text \<open>Lines 188 to 199: the unpacking, the presence check and the \<^verbatim>\<open>Product\<close>.
  The raw second cell is returned too, since the loop reports it on failure.\<close>

definition parse_row :: "row \<Rightarrow> message + Product \<times> cell" where
  "parse_row r =
     (case unpack4 r of
        Inl e \<Rightarrow> Inl e
      | Inr (c, p, q, k) \<Rightarrow>
          if \<not> (truthy c \<and> truthy p \<and> truthy q \<and> truthy k) then Inl (Msg campos_vazios)
          else (case py_int q of
                  Inl e \<Rightarrow> Inl e
                | Inr n \<Rightarrow>
                    Inr (\<lparr>cliente = strip (py_str c), produto = strip (py_str p),
                          quantidade = n, categoria = strip (py_str k)\<rparr>, p)))"

text \<open>The body of the inner \<^verbatim>\<open>try\<close>: \<open>Inl e\<close> when it raises \<open>e\<close>, else what
  \<^verbatim>\<open>preencher_produto\<close> returned, with the raw second cell.\<close>

definition row_try :: "env \<Rightarrow> nat \<Rightarrow> nat \<Rightarrow> row \<Rightarrow> trace \<Rightarrow> (message + bool \<times> cell) \<times> trace" where
  "row_try env index tot r tr =
     (case parse_row r of
        Inl e \<Rightarrow> (Inl e, tr)
      | Inr (product, p) \<Rightarrow>
          (case report_progress env
                  (''Processando: '' @ cliente product @ '' - '' @ produto product) index tot tr of
             (Some e, tr1) \<Rightarrow> (Inl e, tr1)
           | (None, tr1) \<Rightarrow>
               (case preencher_produto env product tr1 of (ok, tr2) \<Rightarrow> (Inr (ok, p), tr2))))"

definition blank :: "row \<Rightarrow> bool" where
  "blank r \<longleftrightarrow> r = [] \<or> \<not> truthy (hd r)"

definition add_erro :: "detalhe \<Rightarrow> stats \<Rightarrow> stats" where
  "add_erro d st = st\<lparr>erro := erro st + 1, erros_detalhados := erros_detalhados st @ [d]\<rparr>"

text \<open>One iteration of the loop over \<^verbatim>\<open>enumerate(rows, 1)\<close>.\<close>

definition process_row :: "env \<Rightarrow> nat \<Rightarrow> row \<Rightarrow> stats \<times> trace \<Rightarrow> stats \<times> trace" where
  "process_row env index r s =
     (case s of (st, tr) \<Rightarrow>
        if blank r then (st, tr)
        else (case row_try env index (total st) r tr of
                (Inr (True, p), tr') \<Rightarrow> (st\<lparr>sucesso := sucesso st + 1\<rparr>, tr')
              | (Inr (False, p), tr') \<Rightarrow>
                  (add_erro \<lparr>linha = index + 1, d_produto = p,
                             d_erro = Msg ''Falha ao submeter''\<rparr> st, tr')
              | (Inl e, tr') \<Rightarrow>
                  (add_erro \<lparr>linha = index + 1,
                             d_produto = (if length r > 1 then r ! 1 else CStr ''Desconhecido''),
                             d_erro = e\<rparr> st, tr')))"

fun process_rows :: "env \<Rightarrow> nat \<Rightarrow> row list \<Rightarrow> stats \<times> trace \<Rightarrow> stats \<times> trace" where
  "process_rows env index [] s = s"
| "process_rows env index (r # rs) s = process_rows env (Suc index) rs (process_row env index r s)"

definition stats0 :: stats where
  "stats0 = \<lparr>total = 0, sucesso = 0, erro = 0, erros_detalhados = []\<rparr>"

definition msg_iniciando :: "nat \<Rightarrow> string" where
  "msg_iniciando n = ''Iniciando processamento de '' @ str_nat n @ '' produtos''"

definition msg_concluido :: "stats \<Rightarrow> string" where
  "msg_concluido st =
     ''Processamento conclu'' @ [CHR 0xED] @ ''do: '' @ str_nat (sucesso st) @ '' sucesso, ''
       @ str_nat (erro st) @ '' erros''"

text \<open>
  The body of the outer \<^verbatim>\<open>try\<close>. The workbook is what \<^verbatim>\<open>openpyxl.load_workbook\<close>
  gives for the file: \<open>Inl m\<close> when it raises with text \<open>m\<close>, else all lines of the
  active sheet, the header first. The result holds the exception that left the body, if
  any, and the \<^verbatim>\<open>stats\<close> dictionary as mutated up to that point.
\<close>

definition processar_body ::
  "env \<Rightarrow> string \<Rightarrow> string + row list \<Rightarrow> message option \<times> stats \<times> trace" where
  "processar_body env url wb =
     (case navigate env url [] of
        (Some e, tr) \<Rightarrow> (Some e, stats0, tr)
      | (None, tr) \<Rightarrow>
          (case wb of
             Inl m \<Rightarrow> (Some (Msg m), stats0, tr)
           | Inr sheet \<Rightarrow>
               (let rows = tl sheet;
                    st1 = stats0\<lparr>total := length rows\<rparr>
                in case report_progress env (msg_iniciando (total st1)) 0 0 tr of
                     (Some e, tr1) \<Rightarrow> (Some e, st1, tr1)
                   | (None, tr1) \<Rightarrow>
                       (case process_rows env 1 rows (st1, tr1) of
                          (st2, tr2) \<Rightarrow>
                            (case report_progress env (msg_concluido st2) 0 0 tr2 of
                               (e, tr3) \<Rightarrow> (e, st2, tr3))))))"

definition processar_planilha :: "env \<Rightarrow> string \<Rightarrow> string + row list \<Rightarrow> stats \<times> trace" where
  "processar_planilha env url wb =
     (case processar_body env url wb of
        (None, st, tr) \<Rightarrow> (st, tr)
      | (Some e, st, tr) \<Rightarrow>
          (st\<lparr>erros_detalhados :=
                 erros_detalhados st @ [\<lparr>linha = 0, d_produto = CStr erro_critico, d_erro = e\<rparr>]\<rparr>,
           tr))"

section \<open>The caller in \<^verbatim>\<open>app_gui.py\<close>\<close>

text \<open>
  \<^verbatim>\<open>_run_automation\<close> runs \<^verbatim>\<open>processar_planilha\<close> on a worker thread, shows the stats
  and calls \<^verbatim>\<open>fechar\<close> in its \<^verbatim>\<open>finally\<close> block. The result holds the exception that
  leaves the \<^verbatim>\<open>finally\<close> block, if any (the outer \<^verbatim>\<open>except\<close> logs it), the stats and
  the trace. The calls on the window are not modelled.
\<close>

definition run_automation ::
  "env \<Rightarrow> string \<Rightarrow> string + row list \<Rightarrow> message option \<times> stats \<times> trace" where
  "run_automation env url wb =
     (case processar_planilha env url wb of
        (st, tr) \<Rightarrow> (case fechar env tr of (e, tr') \<Rightarrow> (e, st, tr')))"

text \<open>
  \<^verbatim>\<open>_stop_automation\<close> runs on the window's thread while the worker is inside
  \<^verbatim>\<open>processar_planilha\<close>, so that \<^verbatim>\<open>self.automation\<close> is set: it calls
  \<^verbatim>\<open>fechar\<close>, and what \<^verbatim>\<open>fechar\<close> raises leaves it, on the window's thread.
  \<open>processar_body_stop k\<close> is \<open>processar_body\<close> with that call arriving when the loop
  has finished \<open>k\<close> rows; the loop itself reads no flag and is the same
  \<open>process_rows\<close> before and after. The first component of the result is the
  exception the stop request raised on the window's thread, if any; the worker does not
  see it.
\<close>

definition stop_automation :: "env \<Rightarrow> trace \<Rightarrow> message option \<times> trace" where
  "stop_automation env tr = fechar env tr"

definition processar_body_stop ::
  "nat \<Rightarrow> env \<Rightarrow> string \<Rightarrow> string + row list
     \<Rightarrow> message option \<times> message option \<times> stats \<times> trace" where
  "processar_body_stop k env url wb =
     (case navigate env url [] of
        (Some e, tr) \<Rightarrow> (None, Some e, stats0, tr)
      | (None, tr) \<Rightarrow>
          (case wb of
             Inl m \<Rightarrow> (None, Some (Msg m), stats0, tr)
           | Inr sheet \<Rightarrow>
               (let rows = tl sheet;
                    st1 = stats0\<lparr>total := length rows\<rparr>
                in case report_progress env (msg_iniciando (total st1)) 0 0 tr of
                     (Some e, tr1) \<Rightarrow> (None, Some e, st1, tr1)
                   | (None, tr1) \<Rightarrow>
                       (case process_rows env 1 (take k rows) (st1, tr1) of
                          (sta, tra) \<Rightarrow>
                       (case stop_automation env tra of
                          (es, trs) \<Rightarrow>
                       (case process_rows env (Suc k) (drop k rows) (sta, trs) of
                          (st2, tr2) \<Rightarrow>
                            (case report_progress env (msg_concluido st2) 0 0 tr2 of
                               (e, tr3) \<Rightarrow> (es, e, st2, tr3))))))))"

text \<open>The worker with a stop request after \<open>k\<close> rows: the exception of the stop
  request, the exception of the \<^verbatim>\<open>finally\<close> block, the stats and the trace.\<close>

definition run_automation_stop ::
  "nat \<Rightarrow> env \<Rightarrow> string \<Rightarrow> string + row list
     \<Rightarrow> message option \<times> message option \<times> stats \<times> trace" where
  "run_automation_stop k env url wb =
     (case processar_body_stop k env url wb of
        (es, eb, st, tr) \<Rightarrow>
          (case fechar env tr of
             (ef, tr') \<Rightarrow>
               (es, ef,
                (case eb of
                   None \<Rightarrow> st
                 | Some e \<Rightarrow>
                     st\<lparr>erros_detalhados :=
                          erros_detalhados st
                            @ [\<lparr>linha = 0, d_produto = CStr erro_critico, d_erro = e\<rparr>]\<rparr>),
                tr')))"

section \<open>Vocabulary of the properties\<close>

text \<open>A world in which no call ever raises.\<close>

definition always_ok :: env where
  "always_ok tr c = None"

text \<open>The progress callback never raises.\<close>

definition quiet_sink :: "env \<Rightarrow> bool" where
  "quiet_sink env \<longleftrightarrow> (\<forall>tr m i n. env tr (Report_progress m i n) = None)"

definition parses :: "row \<Rightarrow> bool" where
  "parses r \<longleftrightarrow> (case parse_row r of Inl e \<Rightarrow> False | Inr x \<Rightarrow> True)"

text \<open>
  The rows the engine drives, read off the raw cells: at least four cells, each of the
  first four non-empty as a raw value (\<^verbatim>\<open>None\<close>, \<^verbatim>\<open>''\<close>, 0 and \<^verbatim>\<open>False\<close> are
  empty), and a quantity that \<^verbatim>\<open>int()\<close> converts.
\<close>

definition accepted :: "row \<Rightarrow> bool" where
  "accepted r \<longleftrightarrow>
     (case unpack4 r of
        Inl e \<Rightarrow> False
      | Inr (c, p, q, k) \<Rightarrow>
          truthy c \<and> truthy p \<and> truthy q \<and> truthy k
          \<and> (case py_int q of Inl e \<Rightarrow> False | Inr n \<Rightarrow> True))"

text \<open>
  A valid row in the words of the specification (its sections 3 and 4.1): at least four
  cells; customer, item and category present and non-empty after trimming; a quantity
  that is present and coerces to an integer. The integer 0 is such a quantity.
\<close>

definition field_present :: "cell \<Rightarrow> bool" where
  "field_present c \<longleftrightarrow> c \<noteq> CNone \<and> strip (py_str c) \<noteq> []"

definition spec_valid :: "row \<Rightarrow> bool" where
  "spec_valid r \<longleftrightarrow>
     (case unpack4 r of
        Inl e \<Rightarrow> False
      | Inr (c, p, q, k) \<Rightarrow>
          field_present c \<and> field_present p \<and> field_present k
          \<and> q \<noteq> CNone \<and> (case py_int q of Inl e \<Rightarrow> False | Inr n \<Rightarrow> True))"

text \<open>The form actions of one record, in the order of the specification, and what it
  means to issue a list of calls until one raises.\<close>

definition form_actions :: "Product \<Rightarrow> call list" where
  "form_actions product =
     [Fill_campo_texto ''cliente'' (cliente product),
      Fill_campo_texto ''produto'' (produto product),
      Fill_campo_texto ''quantidade'' (str_int (quantidade product)),
      Select_categoria (categoria product),
      Submit_form]"

fun run_calls :: "env \<Rightarrow> call list \<Rightarrow> trace \<Rightarrow> string option \<times> trace" where
  "run_calls env [] tr = (None, tr)"
| "run_calls env (c # cs) tr =
     (case env tr c of
        Some m \<Rightarrow> (Some m, tr @ [c])
      | None \<Rightarrow> run_calls env cs (tr @ [c]))"

text \<open>For each row of the loop, in order, whether the loop counted it as failed.\<close>

fun failed_rows :: "env \<Rightarrow> nat \<Rightarrow> row list \<Rightarrow> stats \<times> trace \<Rightarrow> bool list" where
  "failed_rows env index [] s = []"
| "failed_rows env index (r # rs) s =
     (erro (fst (process_row env index r s)) \<noteq> erro (fst s))
       # failed_rows env (Suc index) rs (process_row env index r s)"

definition count_calls :: "call \<Rightarrow> trace \<Rightarrow> nat" where
  "count_calls c tr = length (filter (\<lambda>x. x = c) tr)"

text \<open>The calls one accepted row causes when nothing raises, in order.\<close>

definition row_calls :: "nat \<Rightarrow> nat \<Rightarrow> row \<Rightarrow> call list" where
  "row_calls index tot r =
     (if blank r then []
      else (case parse_row r of
              Inl e \<Rightarrow> []
            | Inr (product, p) \<Rightarrow>
                [Report_progress (''Processando: '' @ cliente product @ '' - '' @ produto product)
                   index tot,
                 Limpar_form,
                 Fill_campo_texto ''cliente'' (cliente product),
                 Fill_campo_texto ''produto'' (produto product),
                 Fill_campo_texto ''quantidade'' (str_int (quantidade product)),
                 Select_categoria (categoria product),
                 Submit_form]))"

text \<open>The label the \<^verbatim>\<open>except\<close> branch of the loop reports for a row.\<close>

definition label :: "row \<Rightarrow> cell" where
  "label r = (if length r > 1 then r ! 1 else CStr ''Desconhecido'')"

text \<open>The failure entry of a row that does not pass lines 188 to 199.\<close>

definition row_failure :: "nat \<Rightarrow> row \<Rightarrow> detalhe list" where
  "row_failure index r =
     (if blank r then []
      else (case parse_row r of
              Inl e \<Rightarrow> [\<lparr>linha = index + 1, d_produto = label r, d_erro = e\<rparr>]
            | Inr x \<Rightarrow> []))"

text \<open>
  The data rows paired with their lines in the sheet: the header is line 1, the first
  data row line 2, and every data row, blank or not, takes one line. \<open>failed_lines\<close>
  is, for the rows the loop counted as failed, the line and the label, in order.
\<close>

definition sheet_lines :: "row list \<Rightarrow> (nat \<times> row) list" where
  "sheet_lines rows = List.enumerate 2 rows"

definition failed_lines :: "env \<Rightarrow> row list \<Rightarrow> stats \<times> trace \<Rightarrow> (nat \<times> cell) list" where
  "failed_lines env rows s =
     map (\<lambda>((line, r), f). (line, label r))
       (filter snd (zip (sheet_lines rows) (failed_rows env 1 rows s)))"

section \<open>Example sheets and worlds\<close>

definition header_row :: row where
  "header_row = [CStr ''Cliente'', CStr ''Produto'', CStr ''Quantidade'', CStr ''Categoria'']"

definition row_ana :: row where
  "row_ana = [CStr ''Ana'', CStr ''Caneta'', CInt 3, CStr ''Livros'']"

definition row_bia :: row where
  "row_bia = [CStr ''Bia'', CStr '' Bola '', CStr '' 12 '', CStr ''Esportes'']"

text \<open>A line whose first cell is empty.\<close>

definition row_blank :: row where
  "row_blank = [CNone, CStr ''Lapis'', CInt 1, CStr ''Livros'']"

definition row_caio :: row where
  "row_caio = [CStr ''Caio'', CStr ''Mesa'', CInt 1, CStr ''Moveis'']"

text \<open>The line of Caio with its category emptied.\<close>

definition row_no_categoria :: row where
  "row_no_categoria = [CStr ''Caio'', CStr ''Mesa'', CInt 1, CNone]"

text \<open>A line whose quantity is the integer 0.\<close>

definition row_zero :: row where
  "row_zero = [CStr ''Duda'', CStr ''Sofa'', CInt 0, CStr ''Moveis'']"

text \<open>A line whose product name is two spaces.\<close>

definition row_spaces :: row where
  "row_spaces = [CStr ''Eva'', CStr ''  '', CInt 2, CStr ''Roupas'']"

text \<open>A line whose quantity is a word.\<close>

definition row_bad_qty :: row where
  "row_bad_qty = [CStr ''Fabio'', CStr ''Livro'', CStr ''dez'', CStr ''Livros'']"

text \<open>The record built from \<open>row_ana\<close>.\<close>

definition product_ana :: Product where
  "product_ana = \<lparr>cliente = ''Ana'', produto = ''Caneta'', quantidade = 3, categoria = ''Livros''\<rparr>"

text \<open>The browser cannot find the customer field while the record of Ana is filled.\<close>

definition fill_fails :: env where
  "fill_fails tr c =
     (if c = Fill_campo_texto ''cliente'' ''Ana'' then Some ''no such element'' else None)"

text \<open>The save button never becomes clickable.\<close>

definition submit_fails :: env where
  "submit_fails tr c = (if c = Submit_form then Some ''timeout'' else None)"

text \<open>The page cannot be loaded.\<close>

definition get_fails :: env where
  "get_fails tr c = (case c of Driver_get u \<Rightarrow> Some ''ERR_NAME_NOT_RESOLVED'' | _ \<Rightarrow> None)"

text \<open>Once \<^verbatim>\<open>driver.quit()\<close> has run, every later call on the browser raises.\<close>

definition dead_after_quit :: env where
  "dead_after_quit tr c =
     (case c of
        Report_progress m i n \<Rightarrow> None
      | Driver_quit \<Rightarrow> None
      | _ \<Rightarrow> if Driver_quit \<in> set tr then Some ''invalid session id'' else None)"

definition ten_rows :: "row list" where
  "ten_rows = replicate 10 row_ana"

text \<open>The record built from \<open>row_bia\<close>.\<close>

definition product_bia :: Product where
  "product_bia = \<lparr>cliente = ''Bia'', produto = ''Bola'', quantidade = 12, categoria = ''Esportes''\<rparr>"

text \<open>The state in which the loop of the sheet \<open>[header_row, row_ana, row_bia]\<close>
  reaches the second data row when the world is \<open>fill_fails\<close>, and the state in which
  it leaves it.\<close>

definition st_after_ana :: stats where
  "st_after_ana =
     \<lparr>total = 2, sucesso = 0, erro = 1,
      erros_detalhados = [\<lparr>linha = 2, d_produto = CStr ''Caneta'',
                            d_erro = Msg ''Falha ao submeter''\<rparr>]\<rparr>"

definition tr_after_ana :: trace where
  "tr_after_ana =
     [Report_progress ''Acessando u'' 0 0, Driver_get ''u'',
      Report_progress ''Iniciando processamento de 2 produtos'' 0 0,
      Report_progress ''Processando: Ana - Caneta'' 1 2, Limpar_form,
      Fill_campo_texto ''cliente'' ''Ana'']"

definition st_after_bia :: stats where
  "st_after_bia =
     \<lparr>total = 2, sucesso = 1, erro = 1,
      erros_detalhados = [\<lparr>linha = 2, d_produto = CStr ''Caneta'',
                            d_erro = Msg ''Falha ao submeter''\<rparr>]\<rparr>"

definition tr_after_bia :: trace where
  "tr_after_bia =
     tr_after_ana
       @ [Report_progress ''Processando: Bia - Bola'' 2 2, Limpar_form,
          Fill_campo_texto ''cliente'' ''Bia'', Fill_campo_texto ''produto'' ''Bola'',
          Fill_campo_texto ''quantidade'' ''12'', Select_categoria ''Esportes'', Submit_form]"

text \<open>The trace of a run on four data rows when its loop starts.\<close>

definition tr_start4 :: trace where
  "tr_start4 =
     [Report_progress ''Acessando u'' 0 0, Driver_get ''u'',
      Report_progress ''Iniciando processamento de 4 produtos'' 0 0]"

section \<open>Facts about the row loop\<close>

text \<open>The rows the engine accepts are the rows that are not skipped and pass lines 188
  to 199.\<close>

lemma accepted_iff: "accepted r \<longleftrightarrow> \<not> blank r \<and> parses r"
  by (cases r)
     (auto simp: accepted_def blank_def parses_def parse_row_def unpack4_def
        split: sum.splits list.splits prod.splits if_splits)

lemma process_row_total: "total (fst (process_row env i r s)) = total (fst s)"
  by (auto simp: process_row_def add_erro_def split: prod.splits sum.splits bool.splits)

lemma process_rows_total: "total (fst (process_rows env i rs s)) = total (fst s)"
  by (induction rs arbitrary: i s) (simp_all add: process_row_total)

text \<open>Every row that is not skipped ends as one success or one failure, whatever the
  world does.\<close>

lemma process_row_counts:
  "sucesso (fst (process_row env i r s)) + erro (fst (process_row env i r s))
     = sucesso (fst s) + erro (fst s) + (if blank r then 0 else 1)"
  by (auto simp: process_row_def add_erro_def split: prod.splits sum.splits bool.splits)

lemma process_rows_counts:
  "sucesso (fst (process_rows env i rs s)) + erro (fst (process_rows env i rs s))
     = sucesso (fst s) + erro (fst s) + length (filter (\<lambda>r. \<not> blank r) rs)"
  by (induction rs arbitrary: i s) (simp_all add: process_row_counts)

lemma process_rows_append:
  "process_rows env i (xs @ ys) s = process_rows env (i + length xs) ys (process_rows env i xs s)"
  by (induction xs arbitrary: i s) simp_all

subsection \<open>When nothing raises\<close>

lemma perform_always_ok: "perform always_ok c tr = (None, tr @ [c])"
  by (simp add: perform_def always_ok_def)

lemma preencher_always_ok:
  "preencher_produto always_ok p tr =
     (True, tr @ [Limpar_form, Fill_campo_texto ''cliente'' (cliente p),
                  Fill_campo_texto ''produto'' (produto p),
                  Fill_campo_texto ''quantidade'' (str_int (quantidade p)),
                  Select_categoria (categoria p), Submit_form])"
  by (simp add: preencher_produto_def fill_campo_texto_def select_categoria_def
        submit_form_def limpar_form_def perform_always_ok)

lemma process_row_always_ok:
  "process_row always_ok i r (st, tr) =
     (if blank r then (st, tr)
      else (case parse_row r of
              Inl e \<Rightarrow> (add_erro \<lparr>linha = i + 1, d_produto = label r, d_erro = e\<rparr> st, tr)
            | Inr x \<Rightarrow> (st\<lparr>sucesso := sucesso st + 1\<rparr>, tr @ row_calls i (total st) r)))"
  by (simp add: process_row_def row_try_def row_calls_def label_def report_progress_def
        perform_always_ok preencher_always_ok split: sum.splits prod.splits)

lemma process_rows_always_ok:
  "process_rows always_ok i rs (st, tr) =
     (st\<lparr>sucesso := sucesso st + length (filter accepted rs),
         erro := erro st + length (filter (\<lambda>r. \<not> blank r \<and> \<not> parses r) rs),
         erros_detalhados := erros_detalhados st
            @ concat (map (\<lambda>(j, r). row_failure j r) (List.enumerate i rs))\<rparr>,
      tr @ concat (map (\<lambda>(j, r). row_calls j (total st) r) (List.enumerate i rs)))"
proof (induction rs arbitrary: i st tr)
  case Nil
  show ?case by simp
next
  case (Cons r rs)
  show ?case
    by (simp add: process_row_always_ok Cons.IH accepted_iff parses_def row_failure_def
          row_calls_def add_erro_def split: sum.splits)
qed

subsection \<open>Counting calls\<close>

lemma count_calls_append [simp]: "count_calls c (xs @ ys) = count_calls c xs + count_calls c ys"
  by (simp add: count_calls_def)

lemma count_calls_Cons: "count_calls c (x # xs) = (if x = c then 1 else 0) + count_calls c xs"
  by (simp add: count_calls_def)

lemma count_calls_Nil [simp]: "count_calls c [] = 0"
  by (simp add: count_calls_def)

lemma preencher_limpar:
  "count_calls Limpar_form (snd (preencher_produto env p tr)) = Suc (count_calls Limpar_form tr)"
  by (simp add: preencher_produto_def fill_campo_texto_def select_categoria_def
        submit_form_def limpar_form_def perform_def count_calls_Cons split: option.splits)

lemma process_row_limpar:
  assumes "quiet_sink env"
  shows "count_calls Limpar_form (snd (process_row env i r (st, tr)))
           = count_calls Limpar_form tr + (if accepted r then 1 else 0)"
proof -
  have q: "\<And>m a b t. env t (Report_progress m a b) = None"
    using assms by (simp add: quiet_sink_def)
  show ?thesis
  proof (cases "blank r")
    case True
    then show ?thesis by (simp add: process_row_def accepted_iff)
  next
    case False
    show ?thesis
    proof (cases "parse_row r")
      case (Inl e)
      with False show ?thesis
        by (simp add: process_row_def row_try_def accepted_iff parses_def)
    next
      case (Inr x)
      obtain product p where x: "x = (product, p)" by (cases x)
      define t1 where "t1 = tr @ [Report_progress
          (''Processando: '' @ cliente product @ '' - '' @ produto product) i (total st)]"
      obtain ok t2 where pp: "preencher_produto env product t1 = (ok, t2)"
        by (cases "preencher_produto env product t1")
      have "count_calls Limpar_form t2 = Suc (count_calls Limpar_form tr)"
        using preencher_limpar[of env product t1] pp by (simp add: t1_def count_calls_Cons)
      with False Inr x pp show ?thesis
        by (cases ok) (simp_all add: process_row_def row_try_def accepted_iff parses_def
              report_progress_def perform_def q t1_def)
    qed
  qed
qed

lemma process_rows_limpar:
  assumes "quiet_sink env"
  shows "count_calls Limpar_form (snd (process_rows env i rs (st, tr)))
           = count_calls Limpar_form tr + length (filter accepted rs)"
proof (induction rs arbitrary: i st tr)
  case Nil
  show ?case by simp
next
  case (Cons r rs)
  obtain st' tr' where s: "process_row env i r (st, tr) = (st', tr')"
    by (cases "process_row env i r (st, tr)")
  from process_row_limpar[OF assms, of i r st tr] s
  have "count_calls Limpar_form tr' = count_calls Limpar_form tr + (if accepted r then 1 else 0)"
    by simp
  with Cons.IH[of "Suc i" st' tr'] s show ?case by simp
qed

text \<open>Inside the loop every increment of \<^verbatim>\<open>erro\<close> comes with one entry of the list.\<close>

lemma process_row_entries:
  "length (erros_detalhados (fst (process_row env i r s))) + erro (fst s)
     = length (erros_detalhados (fst s)) + erro (fst (process_row env i r s))"
  by (auto simp: process_row_def add_erro_def split: prod.splits sum.splits bool.splits)

lemma process_rows_entries:
  "length (erros_detalhados (fst (process_rows env i rs s))) + erro (fst s)
     = length (erros_detalhados (fst s)) + erro (fst (process_rows env i rs s))"
proof (induction rs arbitrary: i s)
  case Nil
  show ?case by simp
next
  case (Cons r rs)
  from Cons.IH[of "Suc i" "process_row env i r s"] process_row_entries[of env i r s]
  show ?case by simp
qed

text \<open>
  Once the page has loaded, and as long as the progress callback does not raise:
  \<open>total\<close> is the number of data rows, every row that is not skipped is counted as
  one success or one failure, the form is cleared once for every accepted row, and each
  failure is one entry of the returned list.
\<close>

lemma processar_planilha_counts:
  assumes "quiet_sink env"
    and "env [Report_progress (''Acessando '' @ url) 0 0] (Driver_get url) = None"
  shows "case processar_planilha env url (Inr sheet) of
           (st, tr) \<Rightarrow>
             total st = length (tl sheet)
             \<and> sucesso st + erro st = length (filter (\<lambda>r. \<not> blank r) (tl sheet))
             \<and> count_calls Limpar_form tr = length (filter accepted (tl sheet))
             \<and> length (erros_detalhados st) = erro st"
proof -
  have q: "\<And>m a b t. env t (Report_progress m a b) = None"
    using assms(1) by (simp add: quiet_sink_def)
  define tr1 where "tr1 = [Report_progress (''Acessando '' @ url) 0 0, Driver_get url,
     Report_progress (msg_iniciando (length (tl sheet))) 0 0]"
  define st1 where "st1 = stats0\<lparr>total := length (tl sheet)\<rparr>"
  obtain st2 tr2 where loop: "process_rows env 1 (tl sheet) (st1, tr1) = (st2, tr2)"
    by (cases "process_rows env 1 (tl sheet) (st1, tr1)")
  have run: "processar_planilha env url (Inr sheet)
               = (st2, tr2 @ [Report_progress (msg_concluido st2) 0 0])"
    using loop assms(2)
    by (simp add: processar_planilha_def processar_body_def navigate_def report_progress_def
          perform_def q tr1_def st1_def Let_def)
  have t: "total st2 = length (tl sheet)"
    using process_rows_total[of env 1 "tl sheet" "(st1, tr1)"] loop by (simp add: st1_def)
  have c: "sucesso st2 + erro st2 = length (filter (\<lambda>r. \<not> blank r) (tl sheet))"
    using process_rows_counts[of env 1 "tl sheet" "(st1, tr1)"] loop
    by (simp add: st1_def stats0_def)
  have l: "count_calls Limpar_form tr2 = length (filter accepted (tl sheet))"
    using process_rows_limpar[OF assms(1), of 1 "tl sheet" st1 tr1] loop
    by (simp add: tr1_def count_calls_Cons)
  have e: "length (erros_detalhados st2) = erro st2"
    using process_rows_entries[of env 1 "tl sheet" "(st1, tr1)"] loop
    by (simp add: st1_def stats0_def)
  show ?thesis using run t c l e by (simp add: count_calls_Cons)
qed

subsection \<open>What driving a record means\<close>

text \<open>\<^verbatim>\<open>preencher_produto\<close> clears the form, swallowing what that raises, then issues
  the five form actions in order until one raises; it returns \<^verbatim>\<open>True\<close> when none
  did.\<close>

lemma preencher_produto_run_calls:
  "preencher_produto env p tr =
     (case run_calls env (form_actions p) (tr @ [Limpar_form]) of
        (None, t) \<Rightarrow> (True, t)
      | (Some m, t) \<Rightarrow> (False, t))"
  by (simp add: preencher_produto_def form_actions_def fill_campo_texto_def
        select_categoria_def submit_form_def limpar_form_def perform_def split: option.splits)

lemma process_row_driven:
  assumes "\<not> blank r"
    and "parse_row r = Inr (product, p)"
    and "env tr (Report_progress
                   (''Processando: '' @ cliente product @ '' - '' @ produto product) i (total st))
           = None"
    and "run_calls env (form_actions product)
           (tr @ [Report_progress
                    (''Processando: '' @ cliente product @ '' - '' @ produto product) i (total st),
                  Limpar_form]) = (e, tr')"
  shows "process_row env i r (st, tr)
           = (case e of
                None \<Rightarrow> st\<lparr>sucesso := sucesso st + 1\<rparr>
              | Some m \<Rightarrow>
                  st\<lparr>erro := erro st + 1,
                     erros_detalhados := erros_detalhados st
                       @ [\<lparr>linha = i + 1, d_produto = p, d_erro = Msg ''Falha ao submeter''\<rparr>]\<rparr>,
              tr')"
  using assms
  by (simp add: process_row_def row_try_def report_progress_def perform_def add_erro_def
        preencher_produto_run_calls split: option.splits)

section \<open>The properties\<close>

text \<open>
  C1. Per-record failure isolation. Take any sheet, any accepted row \<open>r\<close> of it, and
  any behaviour of the form actions, raising or returning on whichever records; the page
  loads and the progress callback does not raise. Let \<open>(st, tr)\<close> be the state in
  which the loop reaches \<open>r\<close>, after whatever successes and failures the rows before
  it had. Then \<open>r\<close> is driven all the same: after its progress report and the clearing
  of the form, its five form actions are issued in order until one raises, and \<open>r\<close> is
  a success when none raised and else a failure with its own entry; the loop then goes
  on with the rows after \<open>r\<close> from that state, and the run returns the stats so
  reached, after the summary report. No exception leaves a row. In the returned stats
  \<open>total\<close> is the number of data rows, every row that is not skipped is counted once,
  the form was cleared once for every accepted row, and each failure is one entry.
\<close>

theorem failure_isolation:
  assumes "quiet_sink env"
    and "env [Report_progress (''Acessando '' @ url) 0 0] (Driver_get url) = None"
    and "\<not> blank r"
    and "parse_row r = Inr (product, p)"
    and "process_rows env 1 before
           (stats0\<lparr>total := length (before @ r # rest)\<rparr>,
            [Report_progress (''Acessando '' @ url) 0 0, Driver_get url,
             Report_progress (msg_iniciando (length (before @ r # rest))) 0 0]) = (st, tr)"
    and "run_calls env (form_actions product)
           (tr @ [Report_progress
                    (''Processando: '' @ cliente product @ '' - '' @ produto product)
                    (Suc (length before)) (length (before @ r # rest)),
                  Limpar_form]) = (e, tr')"
    and "process_rows env (Suc (Suc (length before))) rest
           (case e of
              None \<Rightarrow> st\<lparr>sucesso := sucesso st + 1\<rparr>
            | Some m \<Rightarrow>
                st\<lparr>erro := erro st + 1,
                   erros_detalhados := erros_detalhados st
                     @ [\<lparr>linha = length before + 2, d_produto = p,
                          d_erro = Msg ''Falha ao submeter''\<rparr>]\<rparr>,
            tr') = (st2, tr2)"
  shows "processar_planilha env url (Inr (header # before @ r # rest))
           = (st2, tr2 @ [Report_progress (msg_concluido st2) 0 0])
         \<and> total st2 = length (before @ r # rest)
         \<and> sucesso st2 + erro st2 = length (filter (\<lambda>r. \<not> blank r) (before @ r # rest))
         \<and> count_calls Limpar_form tr2 = length (filter accepted (before @ r # rest))
         \<and> length (erros_detalhados st2) = erro st2"
proof -
  have q: "\<And>m a b t. env t (Report_progress m a b) = None"
    using assms(1) by (simp add: quiet_sink_def)
  define rows where "rows = before @ r # rest"
  define s1 where "s1 = (stats0\<lparr>total := length rows\<rparr>,
            [Report_progress (''Acessando '' @ url) 0 0, Driver_get url,
             Report_progress (msg_iniciando (length rows)) 0 0])"
  have b: "process_rows env 1 before s1 = (st, tr)"
    using assms(5) by (simp add: s1_def rows_def)
  have tot: "total st = length rows"
    using process_rows_total[of env 1 before s1] b by (simp add: s1_def)
  have row: "process_row env (Suc (length before)) r (st, tr)
               = (case e of
                    None \<Rightarrow> st\<lparr>sucesso := sucesso st + 1\<rparr>
                  | Some m \<Rightarrow>
                      st\<lparr>erro := erro st + 1,
                         erros_detalhados := erros_detalhados st
                           @ [\<lparr>linha = length before + 2, d_produto = p,
                                d_erro = Msg ''Falha ao submeter''\<rparr>]\<rparr>,
                  tr')"
    using process_row_driven[OF assms(3,4), of env tr "Suc (length before)" st e tr']
      assms(6) q tot
    by (cases e) (simp_all add: rows_def)
  have loop: "process_rows env 1 rows s1 = (st2, tr2)"
    using process_rows_append[of env 1 before "r # rest" s1] b row assms(7)
    by (simp add: rows_def)
  have run: "processar_planilha env url (Inr (header # rows))
               = (st2, tr2 @ [Report_progress (msg_concluido st2) 0 0])"
    using loop assms(2)
    by (simp add: processar_planilha_def processar_body_def navigate_def report_progress_def
          perform_def q s1_def Let_def)
  from processar_planilha_counts[OF assms(1,2), of "header # rows"] run
  have "total st2 = length rows
         \<and> sucesso st2 + erro st2 = length (filter (\<lambda>r. \<not> blank r) rows)
         \<and> count_calls Limpar_form tr2 = length (filter accepted rows)
         \<and> length (erros_detalhados st2) = erro st2"
    by (simp add: count_calls_Cons)
  with run show ?thesis
    unfolding rows_def by blast
qed

theorem failure_isolation_witness:
  "quiet_sink fill_fails
   \<and> fill_fails [Report_progress (''Acessando '' @ ''u'') 0 0] (Driver_get ''u'') = None
   \<and> \<not> blank row_bia
   \<and> parse_row row_bia = Inr (product_bia, CStr '' Bola '')
   \<and> process_rows fill_fails 1 [row_ana]
        (stats0\<lparr>total := length ([row_ana] @ row_bia # [])\<rparr>,
         [Report_progress (''Acessando '' @ ''u'') 0 0, Driver_get ''u'',
          Report_progress (msg_iniciando (length ([row_ana] @ row_bia # []))) 0 0])
       = (st_after_ana, tr_after_ana)
   \<and> erro st_after_ana = 1
   \<and> run_calls fill_fails (form_actions product_bia)
        (tr_after_ana
           @ [Report_progress
                (''Processando: '' @ cliente product_bia @ '' - '' @ produto product_bia)
                (Suc (length [row_ana])) (length ([row_ana] @ row_bia # [])),
              Limpar_form])
       = (None, tr_after_bia)
   \<and> processar_planilha fill_fails ''u'' (Inr (header_row # [row_ana] @ row_bia # []))
       = (st_after_bia, tr_after_bia @ [Report_progress (msg_concluido st_after_bia) 0 0])
   \<and> total st_after_bia = length ([row_ana] @ row_bia # [])
   \<and> sucesso st_after_bia + erro st_after_bia
       = length (filter (\<lambda>r. \<not> blank r) ([row_ana] @ row_bia # []))
   \<and> count_calls Limpar_form tr_after_bia = length (filter accepted ([row_ana] @ row_bia # []))
   \<and> length (erros_detalhados st_after_bia) = erro st_after_bia
   \<and> sucesso st_after_bia = 1
   \<and> count_calls Submit_form tr_after_bia = 1"
proof -
  have h1: "quiet_sink fill_fails"
    by (simp add: quiet_sink_def fill_fails_def)
  have h2: "fill_fails [Report_progress (''Acessando '' @ ''u'') 0 0] (Driver_get ''u'') = None"
    by (simp add: fill_fails_def)
  have h3: "\<not> blank row_bia"
    by (simp add: blank_def row_bia_def)
  have h4: "parse_row row_bia = Inr (product_bia, CStr '' Bola '')"
    by code_simp
  have h5: "process_rows fill_fails 1 [row_ana]
        (stats0\<lparr>total := length ([row_ana] @ row_bia # [])\<rparr>,
         [Report_progress (''Acessando '' @ ''u'') 0 0, Driver_get ''u'',
          Report_progress (msg_iniciando (length ([row_ana] @ row_bia # []))) 0 0])
       = (st_after_ana, tr_after_ana)"
    by code_simp
  have h6: "run_calls fill_fails (form_actions product_bia)
        (tr_after_ana
           @ [Report_progress
                (''Processando: '' @ cliente product_bia @ '' - '' @ produto product_bia)
                (Suc (length [row_ana])) (length ([row_ana] @ row_bia # [])),
              Limpar_form])
       = (None, tr_after_bia)"
    by code_simp
  have h7: "process_rows fill_fails (Suc (Suc (length [row_ana]))) []
           (case None of
              None \<Rightarrow> st_after_ana\<lparr>sucesso := sucesso st_after_ana + 1\<rparr>
            | Some m \<Rightarrow>
                st_after_ana\<lparr>erro := erro st_after_ana + 1,
                   erros_detalhados := erros_detalhados st_after_ana
                     @ [\<lparr>linha = length [row_ana] + 2, d_produto = CStr '' Bola '',
                          d_erro = Msg ''Falha ao submeter''\<rparr>]\<rparr>,
            tr_after_bia) = (st_after_bia, tr_after_bia)"
    by (simp add: st_after_bia_def st_after_ana_def)
  note t = failure_isolation[OF h1 h2 h3 h4 h5 h6 h7, of header_row]
  have e1: "erro st_after_ana = 1"
    by (simp add: st_after_ana_def)
  have e2: "sucesso st_after_bia = 1"
    by (simp add: st_after_bia_def)
  have e3: "count_calls Submit_form tr_after_bia = 1"
    by code_simp
  show ?thesis
    using h1 h2 h3 h4 h5 h6 t e1 e2 e3 by blast
qed

text \<open>
  C2, as the code has it. For a sheet of a header and \<open>N\<close> rows that the engine
  accepts (at least four cells, the four raw cells non-empty, where 0 and \<^verbatim>\<open>False\<close>
  count as empty, and a quantity that \<^verbatim>\<open>int()\<close> converts), and a world in which
  nothing raises, the run returns \<open>total = N\<close>, \<open>sucesso = N\<close>, \<open>erro = 0\<close> and no
  failure entry; the calls are the navigation, the announcement, then for each row in
  source order, with its index, the progress report, the clearing, the three fills, the
  selection and the submit, then the summary; so exactly \<open>N\<close> submits are issued, in
  row order.
\<close>

theorem happy_path:
  assumes "\<forall>r \<in> set rows. accepted r"
  shows "processar_planilha always_ok url (Inr (header # rows))
           = (\<lparr>total = length rows, sucesso = length rows, erro = 0, erros_detalhados = []\<rparr>,
              [Report_progress (''Acessando '' @ url) 0 0, Driver_get url,
               Report_progress (msg_iniciando (length rows)) 0 0]
              @ concat (map (\<lambda>(j, r). row_calls j (length rows) r) (List.enumerate 1 rows))
              @ [Report_progress
                   (msg_concluido \<lparr>total = length rows, sucesso = length rows, erro = 0,
                                   erros_detalhados = []\<rparr>) 0 0])
         \<and> count_calls Submit_form (snd (processar_planilha always_ok url (Inr (header # rows))))
             = length rows"
proof -
  have v: "filter accepted rows = rows"
    using assms by (simp add: filter_id_conv)
  have b: "filter (\<lambda>r. \<not> blank r \<and> \<not> parses r) rows = []"
    using assms by (auto simp: filter_empty_conv accepted_iff)
  have f: "\<And>i. concat (map (\<lambda>(j, r). row_failure j r) (List.enumerate i rows)) = []"
    using assms
    by (auto simp: row_failure_def accepted_iff parses_def in_set_enumerate_eq
          split: sum.splits)
  have s: "\<And>i n. count_calls Submit_form
              (concat (map (\<lambda>(j, r). row_calls j n r) (List.enumerate i rows))) = length rows"
    using assms
  proof (induction rows)
    case Nil
    show ?case by simp
  next
    case (Cons r rs)
    then show ?case
      by (auto simp: row_calls_def accepted_iff parses_def count_calls_Cons split: sum.splits)
  qed
  have run: "processar_planilha always_ok url (Inr (header # rows))
           = (\<lparr>total = length rows, sucesso = length rows, erro = 0, erros_detalhados = []\<rparr>,
              [Report_progress (''Acessando '' @ url) 0 0, Driver_get url,
               Report_progress (msg_iniciando (length rows)) 0 0]
              @ concat (map (\<lambda>(j, r). row_calls j (length rows) r) (List.enumerate 1 rows))
              @ [Report_progress
                   (msg_concluido \<lparr>total = length rows, sucesso = length rows, erro = 0,
                                   erros_detalhados = []\<rparr>) 0 0])"
    by (simp add: processar_planilha_def processar_body_def navigate_def report_progress_def
          perform_always_ok process_rows_always_ok stats0_def v b f)
  show ?thesis
    unfolding run by (simp add: s count_calls_Cons)
qed

theorem happy_path_witness:
  "accepted row_ana \<and> accepted row_bia
   \<and> fst (processar_planilha always_ok ''u'' (Inr (header_row # [row_ana, row_bia])))
       = \<lparr>total = 2, sucesso = 2, erro = 0, erros_detalhados = []\<rparr>
   \<and> count_calls Submit_form
        (snd (processar_planilha always_ok ''u'' (Inr (header_row # [row_ana, row_bia])))) = 2"
proof -
  have h: "\<forall>r \<in> set [row_ana, row_bia]. accepted r"
    by code_simp
  note t = happy_path[OF h, of "''u''" header_row]
  have a: "fst (processar_planilha always_ok ''u'' (Inr (header_row # [row_ana, row_bia])))
       = \<lparr>total = 2, sucesso = 2, erro = 0, erros_detalhados = []\<rparr>"
    using conjunct1[OF t] by simp
  have b: "count_calls Submit_form
        (snd (processar_planilha always_ok ''u'' (Inr (header_row # [row_ana, row_bia])))) = 2"
    using conjunct2[OF t] by simp
  show ?thesis
    using h a b by simp
qed

text \<open>The claim C2 as written speaks of valid rows. A row whose quantity is the integer
  0 is valid in the words of the specification; the one-row sheet made of it gives no
  success, one failure and no submit.\<close>

theorem happy_path_counterexample:
  "spec_valid row_zero
   \<and> fst (processar_planilha always_ok ''u'' (Inr [header_row, row_zero]))
       = \<lparr>total = 1, sucesso = 0, erro = 1,
          erros_detalhados = [\<lparr>linha = 2, d_produto = CStr ''Sofa'', d_erro = Msg campos_vazios\<rparr>]\<rparr>
   \<and> count_calls Submit_form (snd (processar_planilha always_ok ''u'' (Inr [header_row, row_zero])))
       = 0"
  by code_simp

text \<open>
  C3, as the code has it. When the initial navigation raises, the run stops before any
  row: it returns \<open>total = 0\<close>, \<open>sucesso = 0\<close> and one entry with \<open>linha = 0\<close>, the
  critical marker as label and the text of the navigation error as reason. The counter
  \<open>erro\<close> stays 0: the handler of the outer \<^verbatim>\<open>try\<close> appends the entry and does not
  count it. No form action is issued.
\<close>

theorem critical_navigation_failure:
  assumes "navigate env url [] = (Some e, tr)"
  shows "processar_planilha env url wb
           = (\<lparr>total = 0, sucesso = 0, erro = 0,
               erros_detalhados = [\<lparr>linha = 0, d_produto = CStr erro_critico, d_erro = e\<rparr>]\<rparr>, tr)
         \<and> set tr \<subseteq> {Report_progress (''Acessando '' @ url) 0 0, Driver_get url}"
proof -
  have "set tr \<subseteq> {Report_progress (''Acessando '' @ url) 0 0, Driver_get url}"
    using assms
    by (auto simp: navigate_def report_progress_def perform_def split: option.splits)
  then show ?thesis
    using assms by (simp add: processar_planilha_def processar_body_def stats0_def)
qed

theorem critical_navigation_failure_witness:
  "navigate get_fails ''u'' []
     = (Some (Msg ''ERR_NAME_NOT_RESOLVED''),
        [Report_progress (''Acessando '' @ ''u'') 0 0, Driver_get ''u''])
   \<and> processar_planilha get_fails ''u'' (Inr [header_row, row_ana])
       = (\<lparr>total = 0, sucesso = 0, erro = 0,
           erros_detalhados = [\<lparr>linha = 0, d_produto = CStr erro_critico,
                                 d_erro = Msg ''ERR_NAME_NOT_RESOLVED''\<rparr>]\<rparr>,
          [Report_progress (''Acessando '' @ ''u'') 0 0, Driver_get ''u''])"
proof -
  have h: "navigate get_fails ''u'' []
     = (Some (Msg ''ERR_NAME_NOT_RESOLVED''),
        [Report_progress (''Acessando '' @ ''u'') 0 0, Driver_get ''u''])"
    by (simp add: navigate_def report_progress_def perform_def get_fails_def)
  show ?thesis
    using h critical_navigation_failure[OF h, of "Inr [header_row, row_ana]"] by simp
qed

text \<open>The claim C3 as written asks for \<open>failed = 1\<close>; the page fails to load and the
  counter is 0.\<close>

theorem critical_navigation_failed_counterexample:
  "fst (navigate get_fails ''u'' []) = Some (Msg ''ERR_NAME_NOT_RESOLVED'')
   \<and> erro (fst (processar_planilha get_fails ''u'' (Inr [header_row, row_ana]))) \<noteq> 1"
  by (simp add: processar_planilha_def processar_body_def navigate_def report_progress_def
        perform_def get_fails_def stats0_def)

text \<open>
  C4, as the code has it. A data row whose first cell is empty or absent is skipped: it
  is not validated, no call leaves the engine for it, and neither counter nor the
  failure list changes. It is counted in \<open>total\<close> all the same: once the page has
  loaded, \<open>total\<close> is the number of all data rows, blank or not, since it is set from
  \<^verbatim>\<open>len(rows)\<close> before the loop.
\<close>

theorem blank_row_skipped:
  assumes "blank r"
    and "navigate env url [] = (None, tr1)"
  shows "process_row env i r s = s
         \<and> process_rows env i (r # rs) s = process_rows env (Suc i) rs s
         \<and> total (fst (processar_planilha env url (Inr (header # before @ r # rest))))
             = length before + 1 + length rest"
proof -
  have skip: "process_row env i r s = s"
    using assms(1) by (cases s) (simp add: process_row_def)
  have tot: "total (fst (processar_planilha env url (Inr sheet))) = length (tl sheet)" for sheet
  proof (cases "report_progress env (msg_iniciando (length (tl sheet))) 0 0 tr1")
    case (Pair e tr2)
    show ?thesis
    proof (cases e)
      case (Some m)
      with Pair assms(2) show ?thesis
        by (simp add: processar_planilha_def processar_body_def Let_def stats0_def)
    next
      case None
      obtain st2 tr3 where loop:
        "process_rows env 1 (tl sheet) (stats0\<lparr>total := length (tl sheet)\<rparr>, tr2) = (st2, tr3)"
        by (cases "process_rows env 1 (tl sheet) (stats0\<lparr>total := length (tl sheet)\<rparr>, tr2)")
      have "total st2 = length (tl sheet)"
        using process_rows_total[of env 1 "tl sheet" "(stats0\<lparr>total := length (tl sheet)\<rparr>, tr2)"]
          loop by simp
      with None Pair assms(2) loop show ?thesis
        by (simp add: processar_planilha_def processar_body_def Let_def stats0_def
              split: prod.splits option.splits)
    qed
  qed
  show ?thesis
    using skip tot[of "header # before @ r # rest"] by simp
qed

theorem blank_row_skipped_witness:
  "blank row_blank
   \<and> navigate always_ok ''u'' []
       = (None, [Report_progress (''Acessando '' @ ''u'') 0 0, Driver_get ''u''])
   \<and> process_row always_ok 2 row_blank (stats0, []) = (stats0, [])
   \<and> total (fst (processar_planilha always_ok ''u''
                   (Inr (header_row # [row_ana] @ row_blank # [row_bia])))) = 3"
proof -
  have h1: "blank row_blank"
    by (simp add: blank_def row_blank_def)
  have h2: "navigate always_ok ''u'' []
       = (None, [Report_progress (''Acessando '' @ ''u'') 0 0, Driver_get ''u''])"
    by (simp add: navigate_def report_progress_def perform_always_ok)
  note t = blank_row_skipped[OF h1 h2, of 2 "(stats0, [])" "[]" header_row "[row_ana]" "[row_bia]"]
  have a: "process_row always_ok 2 row_blank (stats0, []) = (stats0, [])"
    using t by blast
  have b: "total (fst (processar_planilha always_ok ''u''
                   (Inr (header_row # [row_ana] @ row_blank # [row_bia])))) = 3"
    using t by simp
  show ?thesis
    using h1 h2 a b by blast
qed

text \<open>The claim C4 as written excludes the blank row from \<open>total\<close>; a sheet of a
  header and one blank row gives \<open>total = 1\<close>.\<close>

theorem blank_row_total_counterexample:
  "blank row_blank
   \<and> total (fst (processar_planilha always_ok ''u'' (Inr [header_row, row_blank]))) = 1"
  by (simp add: processar_planilha_def processar_body_def navigate_def report_progress_def
        perform_always_ok process_rows_always_ok stats0_def blank_def row_blank_def)

text \<open>
  C5, as the code has it. When the run reaches the row loop (the page loaded, the
  workbook opened and the announcement returned), the counters satisfy
  \<open>sucesso + erro + b = total\<close>, where \<open>b\<close> is the number of data rows with an
  empty first cell: blank rows are counted in \<open>total\<close> and in neither counter. The
  engine has no cancellation and no count of unprocessed rows.
\<close>

theorem stats_accounting:
  assumes "navigate env url [] = (None, tr1)"
    and "report_progress env (msg_iniciando (length (tl sheet))) 0 0 tr1 = (None, tr2)"
  shows "case processar_planilha env url (Inr sheet) of
           (st, tr) \<Rightarrow> sucesso st + erro st + length (filter blank (tl sheet)) = total st"
proof -
  define st1 where "st1 = stats0\<lparr>total := length (tl sheet)\<rparr>"
  obtain st2 tr3 where loop: "process_rows env 1 (tl sheet) (st1, tr2) = (st2, tr3)"
    by (cases "process_rows env 1 (tl sheet) (st1, tr2)")
  have t: "total st2 = length (tl sheet)"
    using process_rows_total[of env 1 "tl sheet" "(st1, tr2)"] loop by (simp add: st1_def)
  have c: "sucesso st2 + erro st2 = length (filter (\<lambda>r. \<not> blank r) (tl sheet))"
    using process_rows_counts[of env 1 "tl sheet" "(st1, tr2)"] loop
    by (simp add: st1_def stats0_def)
  have split: "length (filter (\<lambda>r. \<not> blank r) (tl sheet)) + length (filter blank (tl sheet))
                 = length (tl sheet)"
    using sum_length_filter_compl[of blank "tl sheet"] by simp
  have "sucesso (fst (processar_planilha env url (Inr sheet))) = sucesso st2
        \<and> erro (fst (processar_planilha env url (Inr sheet))) = erro st2
        \<and> total (fst (processar_planilha env url (Inr sheet))) = total st2"
    using assms loop
    by (simp add: processar_planilha_def processar_body_def Let_def st1_def
          split: prod.splits option.splits)
  then show ?thesis
    using t c split by (cases "processar_planilha env url (Inr sheet)") simp
qed

theorem stats_accounting_witness:
  "navigate fill_fails ''u'' []
     = (None, [Report_progress (''Acessando '' @ ''u'') 0 0, Driver_get ''u''])
   \<and> report_progress fill_fails
        (msg_iniciando (length (tl [header_row, row_ana, row_blank, row_bia]))) 0 0
        [Report_progress (''Acessando '' @ ''u'') 0 0, Driver_get ''u'']
       = (None, [Report_progress (''Acessando '' @ ''u'') 0 0, Driver_get ''u'',
                 Report_progress
                   (msg_iniciando (length (tl [header_row, row_ana, row_blank, row_bia]))) 0 0])
   \<and> (case processar_planilha fill_fails ''u'' (Inr [header_row, row_ana, row_blank, row_bia]) of
        (st, tr) \<Rightarrow>
          sucesso st + erro st
            + length (filter blank (tl [header_row, row_ana, row_blank, row_bia])) = total st)"
proof -
  have h1: "navigate fill_fails ''u'' []
     = (None, [Report_progress (''Acessando '' @ ''u'') 0 0, Driver_get ''u''])"
    by (simp add: navigate_def report_progress_def perform_def fill_fails_def)
  have h2: "report_progress fill_fails
        (msg_iniciando (length (tl [header_row, row_ana, row_blank, row_bia]))) 0 0
        [Report_progress (''Acessando '' @ ''u'') 0 0, Driver_get ''u'']
       = (None, [Report_progress (''Acessando '' @ ''u'') 0 0, Driver_get ''u'',
                 Report_progress
                   (msg_iniciando (length (tl [header_row, row_ana, row_blank, row_bia]))) 0 0])"
    by (simp add: report_progress_def perform_def fill_fails_def)
  show ?thesis
    by (intro conjI h1 h2 stats_accounting[OF h1 h2])
qed

text \<open>The claim C5 as written asks for \<open>succeeded + failed = total\<close> on a batch that
  ran to its end; with one blank row among three the counters add up to 2 and
  \<open>total\<close> is 3.\<close>

theorem stats_accounting_counterexample:
  "(case processar_planilha always_ok ''u'' (Inr [header_row, row_ana, row_blank, row_bia]) of
      (st, tr) \<Rightarrow> sucesso st + erro st = 2 \<and> total st = 3 \<and> sucesso st + erro st \<noteq> total st)"
  by (simp add: processar_planilha_def processar_body_def navigate_def report_progress_def
        perform_always_ok process_rows_always_ok stats0_def blank_def row_blank_def
        accepted_iff parses_def row_ana_def row_bia_def parse_row_def unpack4_def)

subsection \<open>Validation\<close>

lemma unpack4_label:
  assumes "unpack4 r = Inr (c, p, q, k)"
  shows "label r = p"
proof -
  have t: "take 4 r = [c, p, q, k]"
    using assms by (auto simp: unpack4_def split: list.splits)
  then have "length (take 4 r) = 4" by simp
  then have len: "4 \<le> length r" by simp
  have "take 4 r ! 1 = r ! 1" by simp
  with t have "r ! 1 = p" by simp
  with len show ?thesis by (simp add: label_def)
qed

lemma process_row_parse_error:
  assumes "\<not> blank r" and "parse_row r = Inl e"
  shows "process_row env i r (st, tr)
           = (add_erro \<lparr>linha = i + 1, d_produto = label r, d_erro = e\<rparr> st, tr)"
  using assms by (simp add: process_row_def row_try_def label_def)

text \<open>
  C6, as the code has it. For a row that is not blank and has at least four cells: if
  one of the four raw cells is empty (\<^verbatim>\<open>None\<close>, the empty string, 0 or \<^verbatim>\<open>False\<close>)
  the row fails with the reason \<^verbatim>\<open>Campos obrigat\<close>...\<^verbatim>\<open>rios vazios\<close>; if all four are
  present and \<^verbatim>\<open>int()\<close> refuses the quantity, the row fails with the text of that
  error; in both cases no call leaves the engine for the row, so no field is filled.
  Otherwise the record has the three strings trimmed and the quantity as an integer.
  The presence check reads the raw cells, before the trimming: a string of spaces counts
  as present.
\<close>

theorem record_validation:
  assumes "\<not> blank r" and "unpack4 r = Inr (c, p, q, k)"
  shows "(\<not> (truthy c \<and> truthy p \<and> truthy q \<and> truthy k) \<longrightarrow>
            process_row env i r (st, tr)
              = (st\<lparr>erro := erro st + 1,
                    erros_detalhados := erros_detalhados st
                      @ [\<lparr>linha = i + 1, d_produto = p, d_erro = Msg campos_vazios\<rparr>]\<rparr>, tr))
         \<and> (truthy c \<and> truthy p \<and> truthy q \<and> truthy k \<longrightarrow>
              (\<forall>e. py_int q = Inl e \<longrightarrow>
                 process_row env i r (st, tr)
                   = (st\<lparr>erro := erro st + 1,
                         erros_detalhados := erros_detalhados st
                           @ [\<lparr>linha = i + 1, d_produto = p, d_erro = e\<rparr>]\<rparr>, tr))
              \<and> (\<forall>n. py_int q = Inr n \<longrightarrow>
                   parse_row r
                     = Inr (\<lparr>cliente = strip (py_str c), produto = strip (py_str p),
                             quantidade = n, categoria = strip (py_str k)\<rparr>, p)))"
proof -
  note l = unpack4_label[OF assms(2)]
  have a: "process_row env i r (st, tr)
              = (st\<lparr>erro := erro st + 1,
                    erros_detalhados := erros_detalhados st
                      @ [\<lparr>linha = i + 1, d_produto = p, d_erro = Msg campos_vazios\<rparr>]\<rparr>, tr)"
    if "\<not> (truthy c \<and> truthy p \<and> truthy q \<and> truthy k)"
  proof -
    have "parse_row r = Inl (Msg campos_vazios)"
      using that assms(2) by (auto simp: parse_row_def)
    from process_row_parse_error[OF assms(1) this, of env i st tr] l
    show ?thesis by (simp add: add_erro_def)
  qed
  have b: "process_row env i r (st, tr)
                   = (st\<lparr>erro := erro st + 1,
                         erros_detalhados := erros_detalhados st
                           @ [\<lparr>linha = i + 1, d_produto = p, d_erro = e\<rparr>]\<rparr>, tr)"
    if "truthy c \<and> truthy p \<and> truthy q \<and> truthy k" and "py_int q = Inl e" for e
  proof -
    have "parse_row r = Inl e"
      using that assms(2) by (simp add: parse_row_def)
    from process_row_parse_error[OF assms(1) this, of env i st tr] l
    show ?thesis by (simp add: add_erro_def)
  qed
  have c: "parse_row r
             = Inr (\<lparr>cliente = strip (py_str c), produto = strip (py_str p),
                     quantidade = n, categoria = strip (py_str k)\<rparr>, p)"
    if "truthy c \<and> truthy p \<and> truthy q \<and> truthy k" and "py_int q = Inr n" for n
    using that assms(2) by (simp add: parse_row_def)
  show ?thesis
    using a b c by blast
qed

theorem record_validation_witness:
  "\<not> blank row_no_categoria
   \<and> unpack4 row_no_categoria = Inr (CStr ''Caio'', CStr ''Mesa'', CInt 1, CNone)
   \<and> \<not> (truthy (CStr ''Caio'') \<and> truthy (CStr ''Mesa'') \<and> truthy (CInt 1) \<and> truthy CNone)
   \<and> process_row fill_fails 1 row_no_categoria (stats0, [])
       = (stats0\<lparr>erro := erro stats0 + 1,
                 erros_detalhados := erros_detalhados stats0
                   @ [\<lparr>linha = 1 + 1, d_produto = CStr ''Mesa'', d_erro = Msg campos_vazios\<rparr>]\<rparr>, [])
   \<and> \<not> blank row_bad_qty
   \<and> unpack4 row_bad_qty = Inr (CStr ''Fabio'', CStr ''Livro'', CStr ''dez'', CStr ''Livros'')
   \<and> (truthy (CStr ''Fabio'') \<and> truthy (CStr ''Livro'') \<and> truthy (CStr ''dez'')
        \<and> truthy (CStr ''Livros''))
   \<and> py_int (CStr ''dez'') = Inl (IntLiteralError ''dez'')
   \<and> process_row fill_fails 1 row_bad_qty (stats0, [])
       = (stats0\<lparr>erro := erro stats0 + 1,
                 erros_detalhados := erros_detalhados stats0
                   @ [\<lparr>linha = 1 + 1, d_produto = CStr ''Livro'',
                        d_erro = IntLiteralError ''dez''\<rparr>]\<rparr>, [])
   \<and> \<not> blank row_bia
   \<and> unpack4 row_bia = Inr (CStr ''Bia'', CStr '' Bola '', CStr '' 12 '', CStr ''Esportes'')
   \<and> py_int (CStr '' 12 '') = Inr 12
   \<and> parse_row row_bia
       = Inr (\<lparr>cliente = strip (py_str (CStr ''Bia'')), produto = strip (py_str (CStr '' Bola '')),
               quantidade = 12, categoria = strip (py_str (CStr ''Esportes''))\<rparr>, CStr '' Bola '')"
proof -
  have n1: "\<not> blank row_no_categoria"
    by (simp add: blank_def row_no_categoria_def)
  have u1: "unpack4 row_no_categoria = Inr (CStr ''Caio'', CStr ''Mesa'', CInt 1, CNone)"
    by (simp add: unpack4_def row_no_categoria_def)
  have t1: "\<not> (truthy (CStr ''Caio'') \<and> truthy (CStr ''Mesa'') \<and> truthy (CInt 1) \<and> truthy CNone)"
    by simp
  have n2: "\<not> blank row_bad_qty"
    by (simp add: blank_def row_bad_qty_def)
  have u2: "unpack4 row_bad_qty
              = Inr (CStr ''Fabio'', CStr ''Livro'', CStr ''dez'', CStr ''Livros'')"
    by (simp add: unpack4_def row_bad_qty_def)
  have t2: "truthy (CStr ''Fabio'') \<and> truthy (CStr ''Livro'') \<and> truthy (CStr ''dez'')
              \<and> truthy (CStr ''Livros'')"
    by simp
  have i2: "py_int (CStr ''dez'') = Inl (IntLiteralError ''dez'')"
    by code_simp
  have n3: "\<not> blank row_bia"
    by (simp add: blank_def row_bia_def)
  have u3: "unpack4 row_bia
              = Inr (CStr ''Bia'', CStr '' Bola '', CStr '' 12 '', CStr ''Esportes'')"
    by (simp add: unpack4_def row_bia_def)
  have t3: "truthy (CStr ''Bia'') \<and> truthy (CStr '' Bola '') \<and> truthy (CStr '' 12 '')
              \<and> truthy (CStr ''Esportes'')"
    by simp
  have i3: "py_int (CStr '' 12 '') = Inr 12"
    by code_simp
  note r1 = record_validation[OF n1 u1, of fill_fails 1 stats0 "[]"]
  note r2 = record_validation[OF n2 u2, of fill_fails 1 stats0 "[]"]
  note r3 = record_validation[OF n3 u3, of fill_fails 1 stats0 "[]"]
  show ?thesis
    using n1 u1 t1 n2 u2 t2 i2 n3 u3 t3 i3 r1 r2 r3 by blast
qed

text \<open>The claim C6 as written rejects a row with a field that is empty after the
  trimming; the product name of two spaces is empty after the trimming, the row passes
  and the empty name is typed into the form.\<close>

theorem record_validation_counterexample:
  "strip (py_str (row_spaces ! 1)) = []
   \<and> accepted row_spaces
   \<and> Fill_campo_texto ''produto'' []
        \<in> set (snd (processar_planilha always_ok ''u'' (Inr [header_row, row_spaces])))
   \<and> erro (fst (processar_planilha always_ok ''u'' (Inr [header_row, row_spaces]))) = 0"
  by code_simp

text \<open>
  C10. A row that is not blank and whose quantity cell is the integer 0 fails with the
  reason \<^verbatim>\<open>Campos obrigat\<close>...\<^verbatim>\<open>rios vazios\<close>, although \<^verbatim>\<open>int(0)\<close> is an integer: the
  presence check tests the raw cells. No call leaves the engine for the row.
\<close>

theorem zero_quantity_rejected:
  assumes "\<not> blank r" and "unpack4 r = Inr (c, p, CInt 0, k)"
  shows "process_row env i r (st, tr)
           = (st\<lparr>erro := erro st + 1,
                 erros_detalhados := erros_detalhados st
                   @ [\<lparr>linha = i + 1, d_produto = p, d_erro = Msg campos_vazios\<rparr>]\<rparr>, tr)
         \<and> py_int (CInt 0) = Inr 0"
proof -
  have "parse_row r = Inl (Msg campos_vazios)"
    using assms(2) by (simp add: parse_row_def)
  from process_row_parse_error[OF assms(1) this, of env i st tr] unpack4_label[OF assms(2)]
  show ?thesis by (simp add: add_erro_def)
qed

theorem zero_quantity_rejected_witness:
  "\<not> blank row_zero
   \<and> unpack4 row_zero = Inr (CStr ''Duda'', CStr ''Sofa'', CInt 0, CStr ''Moveis'')
   \<and> process_row always_ok 1 row_zero (stats0, [])
       = (stats0\<lparr>erro := erro stats0 + 1,
                 erros_detalhados := erros_detalhados stats0
                   @ [\<lparr>linha = 1 + 1, d_produto = CStr ''Sofa'', d_erro = Msg campos_vazios\<rparr>]\<rparr>, [])"
proof -
  have n: "\<not> blank row_zero"
    by (simp add: blank_def row_zero_def)
  have u: "unpack4 row_zero = Inr (CStr ''Duda'', CStr ''Sofa'', CInt 0, CStr ''Moveis'')"
    by (simp add: unpack4_def row_zero_def)
  show ?thesis
    using n u zero_quantity_rejected[OF n u, of always_ok 1 stats0 "[]"] by blast
qed

subsection \<open>Driving one record\<close>

text \<open>\<^verbatim>\<open>preencher_produto\<close> returns \<^verbatim>\<open>False\<close> exactly when the last call it made, a
  fill, the selection or the submit, raised.\<close>

lemma preencher_produto_raised:
  assumes "preencher_produto env p tr = (ok, tr')"
  shows "ok = (env (butlast tr') (last tr') = None) \<and> last tr' \<noteq> Limpar_form"
  using assms
  by (auto simp: preencher_produto_def fill_campo_texto_def select_categoria_def
        submit_form_def limpar_form_def perform_def butlast_append
        split: option.splits prod.splits if_splits)

text \<open>
  C8, as the code has it. When the driving of a valid record fails because a fill, the
  selection or the submit raises, with whatever text \<open>m\<close>, the exception is caught
  inside \<^verbatim>\<open>preencher_produto\<close>, which returns \<^verbatim>\<open>False\<close>; the row is counted as failed
  with its line number and its raw product cell, and the recorded reason is the fixed
  text \<^verbatim>\<open>Falha ao submeter\<close>, not \<open>m\<close>; the loop goes on with the next row.
\<close>

theorem driving_failure_reason:
  assumes "\<not> blank r"
    and "parse_row r = Inr (product, p)"
    and "report_progress env
           (''Processando: '' @ cliente product @ '' - '' @ produto product) i (total st) tr
           = (None, tr1)"
    and "preencher_produto env product tr1 = (ok, tr2)"
    and "env (butlast tr2) (last tr2) = Some m"
  shows "process_rows env i (r # rs) (st, tr)
           = process_rows env (Suc i) rs
               (st\<lparr>erro := erro st + 1,
                   erros_detalhados := erros_detalhados st
                     @ [\<lparr>linha = i + 1, d_produto = p, d_erro = Msg ''Falha ao submeter''\<rparr>]\<rparr>,
                tr2)"
proof -
  have "ok = False"
    using preencher_produto_raised[OF assms(4)] assms(5) by simp
  with assms(1-4) have "process_row env i r (st, tr)
           = (st\<lparr>erro := erro st + 1,
                 erros_detalhados := erros_detalhados st
                   @ [\<lparr>linha = i + 1, d_produto = p, d_erro = Msg ''Falha ao submeter''\<rparr>]\<rparr>,
              tr2)"
    by (simp add: process_row_def row_try_def add_erro_def)
  then show ?thesis by simp
qed

theorem driving_failure_reason_witness:
  "\<not> blank row_ana
   \<and> parse_row row_ana = Inr (product_ana, CStr ''Caneta'')
   \<and> report_progress submit_fails
        (''Processando: '' @ cliente product_ana @ '' - '' @ produto product_ana) 1 (total stats0) []
       = (None, [Report_progress ''Processando: Ana - Caneta'' 1 0])
   \<and> preencher_produto submit_fails product_ana [Report_progress ''Processando: Ana - Caneta'' 1 0]
       = (False, [Report_progress ''Processando: Ana - Caneta'' 1 0, Limpar_form,
                  Fill_campo_texto ''cliente'' ''Ana'', Fill_campo_texto ''produto'' ''Caneta'',
                  Fill_campo_texto ''quantidade'' ''3'', Select_categoria ''Livros'', Submit_form])
   \<and> submit_fails
        (butlast [Report_progress ''Processando: Ana - Caneta'' 1 0, Limpar_form,
                  Fill_campo_texto ''cliente'' ''Ana'', Fill_campo_texto ''produto'' ''Caneta'',
                  Fill_campo_texto ''quantidade'' ''3'', Select_categoria ''Livros'', Submit_form])
        (last [Report_progress ''Processando: Ana - Caneta'' 1 0, Limpar_form,
                  Fill_campo_texto ''cliente'' ''Ana'', Fill_campo_texto ''produto'' ''Caneta'',
                  Fill_campo_texto ''quantidade'' ''3'', Select_categoria ''Livros'', Submit_form])
       = Some ''timeout''
   \<and> process_rows submit_fails 1 (row_ana # [row_bia]) (stats0, [])
       = process_rows submit_fails (Suc 1) [row_bia]
           (stats0\<lparr>erro := erro stats0 + 1,
                   erros_detalhados := erros_detalhados stats0
                     @ [\<lparr>linha = 1 + 1, d_produto = CStr ''Caneta'',
                          d_erro = Msg ''Falha ao submeter''\<rparr>]\<rparr>,
            [Report_progress ''Processando: Ana - Caneta'' 1 0, Limpar_form,
             Fill_campo_texto ''cliente'' ''Ana'', Fill_campo_texto ''produto'' ''Caneta'',
             Fill_campo_texto ''quantidade'' ''3'', Select_categoria ''Livros'', Submit_form])"
proof -
  have h1: "\<not> blank row_ana"
    by (simp add: blank_def row_ana_def)
  have h2: "parse_row row_ana = Inr (product_ana, CStr ''Caneta'')"
    by code_simp
  have h3: "report_progress submit_fails
        (''Processando: '' @ cliente product_ana @ '' - '' @ produto product_ana) 1 (total stats0) []
       = (None, [Report_progress ''Processando: Ana - Caneta'' 1 0])"
    by code_simp
  have h4: "preencher_produto submit_fails product_ana
              [Report_progress ''Processando: Ana - Caneta'' 1 0]
       = (False, [Report_progress ''Processando: Ana - Caneta'' 1 0, Limpar_form,
                  Fill_campo_texto ''cliente'' ''Ana'', Fill_campo_texto ''produto'' ''Caneta'',
                  Fill_campo_texto ''quantidade'' ''3'', Select_categoria ''Livros'', Submit_form])"
    by code_simp
  have h5: "submit_fails
        (butlast [Report_progress ''Processando: Ana - Caneta'' 1 0, Limpar_form,
                  Fill_campo_texto ''cliente'' ''Ana'', Fill_campo_texto ''produto'' ''Caneta'',
                  Fill_campo_texto ''quantidade'' ''3'', Select_categoria ''Livros'', Submit_form])
        (last [Report_progress ''Processando: Ana - Caneta'' 1 0, Limpar_form,
                  Fill_campo_texto ''cliente'' ''Ana'', Fill_campo_texto ''produto'' ''Caneta'',
                  Fill_campo_texto ''quantidade'' ''3'', Select_categoria ''Livros'', Submit_form])
       = Some ''timeout''"
    by (simp add: submit_fails_def)
  show ?thesis
    by (intro conjI h1 h2 h3 h4 h5 driving_failure_reason[OF h1 h2 h3 h4 h5])
qed

text \<open>The claim C8 as written records the text of the exception; the submit raises
  with the text \<^verbatim>\<open>timeout\<close> and the recorded reason is \<^verbatim>\<open>Falha ao submeter\<close>.\<close>

theorem driving_failure_reason_counterexample:
  "submit_fails [] Submit_form = Some ''timeout''
   \<and> map d_erro (erros_detalhados
        (fst (processar_planilha submit_fails ''u'' (Inr [header_row, row_ana]))))
       = [Msg ''Falha ao submeter'']
   \<and> Msg ''Falha ao submeter'' \<noteq> Msg ''timeout''"
  by code_simp

subsection \<open>Row numbers\<close>

text \<open>Whatever the world does, one row adds at most one entry, and the entry carries
  the row's index plus one and the row's label.\<close>

lemma process_row_linha:
  assumes "process_row env i r (st, tr) = (st', tr')"
  shows "(erro st' = erro st \<and> erros_detalhados st' = erros_detalhados st)
         \<or> (erro st' = erro st + 1
             \<and> (\<exists>m. erros_detalhados st'
                   = erros_detalhados st @ [\<lparr>linha = i + 1, d_produto = label r, d_erro = m\<rparr>]))"
proof (cases "blank r")
  case True
  with assms show ?thesis by (simp add: process_row_def)
next
  case False
  show ?thesis
  proof (cases "parse_row r")
    case (Inl e)
    from process_row_parse_error[OF False Inl, of env i st tr] assms
    show ?thesis by (auto simp: add_erro_def)
  next
    case (Inr x)
    obtain product p where x: "x = (product, p)" by (cases x)
    obtain c q k where u: "unpack4 r = Inr (c, p, q, k)"
      using Inr x by (auto simp: parse_row_def split: sum.splits if_splits)
    note l = unpack4_label[OF u]
    from assms False Inr x l show ?thesis
      by (auto simp: process_row_def row_try_def add_erro_def label_def
            split: prod.splits option.splits bool.splits)
  qed
qed

lemma accepted_rows_no_failure:
  assumes "\<forall>r \<in> set rs. accepted r"
  shows "concat (map (\<lambda>(j, r). row_failure j r) (List.enumerate i rs)) = []"
  using assms
  by (auto simp: row_failure_def accepted_iff parses_def in_set_enumerate_eq split: sum.splits)

lemma accepted_rows_filter:
  assumes "\<forall>r \<in> set rs. accepted r"
  shows "filter accepted rs = rs" and "filter (\<lambda>r. \<not> blank r \<and> \<not> parses r) rs = []"
  using assms by (auto simp: filter_id_conv filter_empty_conv accepted_iff)

text \<open>With nothing raising, when the data row at position \<open>k\<close>, counted from 0, is the
  only row of \<open>N\<close> that the engine rejects, the run counts \<open>N - 1\<close> successes and one
  failure, reported on line \<open>k + 2\<close>.\<close>

lemma one_rejected_row:
  assumes "k < length rows"
    and "\<forall>j < length rows. j \<noteq> k \<longrightarrow> accepted (rows ! j)"
    and "\<not> blank (rows ! k)"
    and "parse_row (rows ! k) = Inl e"
  shows "fst (processar_planilha always_ok url (Inr (header # rows)))
           = \<lparr>total = length rows, sucesso = length rows - 1, erro = 1,
              erros_detalhados = [\<lparr>linha = k + 2, d_produto = label (rows ! k), d_erro = e\<rparr>]\<rparr>
         \<and> (header # rows) ! (k + 2 - 1) = rows ! k"
proof -
  define xs where "xs = take k rows"
  define ys where "ys = drop (Suc k) rows"
  define b where "b = rows ! k"
  have rows: "rows = xs @ b # ys"
    using assms(1) by (simp add: xs_def ys_def b_def id_take_nth_drop)
  have lx: "length xs = k"
    using assms(1) by (simp add: xs_def)
  have vx: "\<forall>r \<in> set xs. accepted r"
  proof
    fix r assume "r \<in> set xs"
    then obtain j where "j < length xs" "r = xs ! j" by (auto simp: in_set_conv_nth)
    with assms(1,2) lx show "accepted r" by (simp add: xs_def)
  qed
  have vy: "\<forall>r \<in> set ys. accepted r"
  proof
    fix r assume "r \<in> set ys"
    then obtain j where j: "j < length ys" "r = ys ! j" by (auto simp: in_set_conv_nth)
    then have "Suc k + j < length rows" "r = rows ! (Suc k + j)"
      by (simp_all add: ys_def)
    with assms(2) show "accepted r" by simp
  qed
  have nb: "\<not> accepted b" "\<not> blank b" "\<not> parses b" "parse_row b = Inl e"
    using assms(3,4) by (simp_all add: b_def accepted_iff parses_def)
  have len: "length rows = Suc (length xs + length ys)"
    by (simp add: rows)
  have fb: "row_failure (Suc (length xs)) b
              = [\<lparr>linha = length xs + 2, d_produto = label b, d_erro = e\<rparr>]"
    using nb by (simp add: row_failure_def)
  have "fst (processar_planilha always_ok url (Inr (header # xs @ b # ys)))
           = \<lparr>total = Suc (length xs + length ys), sucesso = length xs + length ys, erro = 1,
              erros_detalhados = [\<lparr>linha = length xs + 2, d_produto = label b, d_erro = e\<rparr>]\<rparr>"
    by (simp add: processar_planilha_def processar_body_def navigate_def report_progress_def
          perform_always_ok process_rows_always_ok stats0_def enumerate_append_eq
          accepted_rows_filter[OF vx] accepted_rows_filter[OF vy]
          accepted_rows_no_failure[OF vx] accepted_rows_no_failure[OF vy] nb fb)
  then show ?thesis
    using lx by (simp add: rows b_def[symmetric] nth_append)
qed

text \<open>The entries the loop adds are, in order, the rows it counted as failed, each with
  its index plus one and its label.\<close>

lemma process_rows_lines:
  "map (\<lambda>d. (linha d, d_produto d)) (erros_detalhados (fst (process_rows env i rows s)))
     = map (\<lambda>d. (linha d, d_produto d)) (erros_detalhados (fst s))
       @ map (\<lambda>((line, r), f). (line, label r))
           (filter snd (zip (List.enumerate (Suc i) rows) (failed_rows env i rows s)))"
proof (induction rows arbitrary: i s)
  case Nil
  show ?case by simp
next
  case (Cons r rs)
  obtain st tr where s: "s = (st, tr)" by (cases s)
  obtain st' tr' where p: "process_row env i r (st, tr) = (st', tr')"
    by (cases "process_row env i r (st, tr)")
  from process_row_linha[OF p]
  have step: "map (\<lambda>d. (linha d, d_produto d)) (erros_detalhados st')
                = map (\<lambda>d. (linha d, d_produto d)) (erros_detalhados st)
                  @ (if erro st' \<noteq> erro st then [(Suc i, label r)] else [])"
    by auto
  from Cons.IH[of "Suc i" "(st', tr')"] step s p show ?case
    by simp
qed

lemma sheet_lines_nth:
  assumes "k < length rows"
  shows "sheet_lines rows ! k = (k + 2, rows ! k)"
  using assms by (simp add: sheet_lines_def nth_enumerate_eq)

text \<open>
  C7, as the code has it. Every failing data row is reported with \<open>linha = index + 1\<close>,
  where \<open>index\<close> counts the data rows from 1: that is the line of the row in the
  sheet, whose line 1 is the header and where blank rows take a line too. For every
  world and every sheet, once the loop is reached, the entries of the run, the critical
  one apart, are in order the rows that failed, in validation or in driving, each with
  its line in the sheet and its label. In particular, with nothing raising, when the
  data row at position \<open>k\<close> counted from 0 (the row of index \<open>k + 1\<close>, on line
  \<open>k + 2\<close>) is the only one of \<open>N\<close> rows that the engine rejects, the others being
  accepted, the run returns \<open>sucesso = N - 1\<close>, \<open>erro = 1\<close> and one entry, whose
  \<open>linha\<close> is \<open>k + 2\<close>: line 3 for the second data row.
\<close>

theorem row_numbering:
  "(navigate env url [] = (None, tr1)
      \<and> report_progress env (msg_iniciando (length (tl sheet))) 0 0 tr1 = (None, tr2)
      \<longrightarrow> (case processar_planilha env url (Inr sheet) of
             (st, tr) \<Rightarrow>
               map (\<lambda>d. (linha d, d_produto d)) (take (erro st) (erros_detalhados st))
                 = failed_lines env (tl sheet) (stats0\<lparr>total := length (tl sheet)\<rparr>, tr2)))
   \<and> (k < length rows
        \<and> (\<forall>j < length rows. j \<noteq> k \<longrightarrow> accepted (rows ! j))
        \<and> \<not> blank (rows ! k) \<and> parse_row (rows ! k) = Inl e
      \<longrightarrow> fst (processar_planilha always_ok url (Inr (header # rows)))
            = \<lparr>total = length rows, sucesso = length rows - 1, erro = 1,
               erros_detalhados = [\<lparr>linha = k + 2, d_produto = label (rows ! k), d_erro = e\<rparr>]\<rparr>
          \<and> sheet_lines rows ! k = (k + 2, rows ! k))"
proof (intro conjI impI)
  assume h: "navigate env url [] = (None, tr1)
      \<and> report_progress env (msg_iniciando (length (tl sheet))) 0 0 tr1 = (None, tr2)"
  define st1 where "st1 = stats0\<lparr>total := length (tl sheet)\<rparr>"
  obtain st2 tr3 where loop: "process_rows env 1 (tl sheet) (st1, tr2) = (st2, tr3)"
    by (cases "process_rows env 1 (tl sheet) (st1, tr2)")
  obtain x tr4 where fin: "report_progress env (msg_concluido st2) 0 0 tr3 = (x, tr4)"
    by (cases "report_progress env (msg_concluido st2) 0 0 tr3")
  have len: "length (erros_detalhados st2) = erro st2"
    using process_rows_entries[of env 1 "tl sheet" "(st1, tr2)"] loop
    by (simp add: st1_def stats0_def)
  have lines: "map (\<lambda>d. (linha d, d_produto d)) (erros_detalhados st2)
                 = failed_lines env (tl sheet) (st1, tr2)"
    using process_rows_lines[of env 1 "tl sheet" "(st1, tr2)"] loop
    by (simp add: failed_lines_def sheet_lines_def st1_def stats0_def numeral_2_eq_2)
  have run: "processar_planilha env url (Inr sheet)
               = (case x of
                    None \<Rightarrow> st2
                  | Some m \<Rightarrow>
                      st2\<lparr>erros_detalhados := erros_detalhados st2
                             @ [\<lparr>linha = 0, d_produto = CStr erro_critico, d_erro = m\<rparr>]\<rparr>,
                  tr4)"
    using h loop fin
    by (cases x) (simp_all add: processar_planilha_def processar_body_def Let_def st1_def)
  show "case processar_planilha env url (Inr sheet) of
             (st, tr) \<Rightarrow>
               map (\<lambda>d. (linha d, d_produto d)) (take (erro st) (erros_detalhados st))
                 = failed_lines env (tl sheet) (stats0\<lparr>total := length (tl sheet)\<rparr>, tr2)"
    unfolding run using len lines by (cases x) (simp_all add: st1_def)
next
  assume h: "k < length rows
        \<and> (\<forall>j < length rows. j \<noteq> k \<longrightarrow> accepted (rows ! j))
        \<and> \<not> blank (rows ! k) \<and> parse_row (rows ! k) = Inl e"
  then have h1: "k < length rows"
    and h2: "\<forall>j < length rows. j \<noteq> k \<longrightarrow> accepted (rows ! j)"
    and h3: "\<not> blank (rows ! k)" and h4: "parse_row (rows ! k) = Inl e"
    by simp_all
  from conjunct1[OF one_rejected_row[OF h1 h2 h3 h4, of url header]]
  show "fst (processar_planilha always_ok url (Inr (header # rows)))
            = \<lparr>total = length rows, sucesso = length rows - 1, erro = 1,
               erros_detalhados = [\<lparr>linha = k + 2, d_produto = label (rows ! k), d_erro = e\<rparr>]\<rparr>" .
next
  assume "k < length rows
        \<and> (\<forall>j < length rows. j \<noteq> k \<longrightarrow> accepted (rows ! j))
        \<and> \<not> blank (rows ! k) \<and> parse_row (rows ! k) = Inl e"
  then show "sheet_lines rows ! k = (k + 2, rows ! k)"
    by (simp add: sheet_lines_nth)
qed

theorem row_numbering_witness:
  "navigate fill_fails ''u'' []
     = (None, [Report_progress (''Acessando '' @ ''u'') 0 0, Driver_get ''u''])
   \<and> report_progress fill_fails
        (msg_iniciando (length (tl [header_row, row_blank, row_ana, row_bia, row_no_categoria])))
        0 0 [Report_progress (''Acessando '' @ ''u'') 0 0, Driver_get ''u'']
       = (None, tr_start4)
   \<and> (case processar_planilha fill_fails ''u''
              (Inr [header_row, row_blank, row_ana, row_bia, row_no_categoria]) of
         (st, tr) \<Rightarrow>
           map (\<lambda>d. (linha d, d_produto d)) (take (erro st) (erros_detalhados st))
             = failed_lines fill_fails (tl [header_row, row_blank, row_ana, row_bia, row_no_categoria])
                 (stats0\<lparr>total := length (tl [header_row, row_blank, row_ana, row_bia,
                                                 row_no_categoria])\<rparr>, tr_start4))
   \<and> failed_lines fill_fails (tl [header_row, row_blank, row_ana, row_bia, row_no_categoria])
        (stats0\<lparr>total := length (tl [header_row, row_blank, row_ana, row_bia,
                                        row_no_categoria])\<rparr>, tr_start4)
       = [(3, CStr ''Caneta''), (5, CStr ''Mesa'')]
   \<and> (1::nat) < length [row_ana, row_no_categoria, row_bia]
   \<and> accepted ([row_ana, row_no_categoria, row_bia] ! 0)
   \<and> accepted ([row_ana, row_no_categoria, row_bia] ! 2)
   \<and> \<not> blank ([row_ana, row_no_categoria, row_bia] ! 1)
   \<and> parse_row ([row_ana, row_no_categoria, row_bia] ! 1) = Inl (Msg campos_vazios)
   \<and> fst (processar_planilha always_ok ''u''
             (Inr (header_row # [row_ana, row_no_categoria, row_bia])))
       = \<lparr>total = 3, sucesso = 2, erro = 1,
          erros_detalhados = [\<lparr>linha = 3, d_produto = CStr ''Mesa'',
                                d_erro = Msg campos_vazios\<rparr>]\<rparr>"
proof -
  have g1: "navigate fill_fails ''u'' []
     = (None, [Report_progress (''Acessando '' @ ''u'') 0 0, Driver_get ''u''])"
    by (simp add: navigate_def report_progress_def perform_def fill_fails_def)
  have g2: "report_progress fill_fails
        (msg_iniciando (length (tl [header_row, row_blank, row_ana, row_bia, row_no_categoria])))
        0 0 [Report_progress (''Acessando '' @ ''u'') 0 0, Driver_get ''u'']
       = (None, tr_start4)"
    by code_simp
  have g3: "failed_lines fill_fails (tl [header_row, row_blank, row_ana, row_bia, row_no_categoria])
        (stats0\<lparr>total := length (tl [header_row, row_blank, row_ana, row_bia,
                                        row_no_categoria])\<rparr>, tr_start4)
       = [(3, CStr ''Caneta''), (5, CStr ''Mesa'')]"
    by code_simp
  have h1: "(1::nat) < length [row_ana, row_no_categoria, row_bia]"
    by simp
  have v0: "accepted ([row_ana, row_no_categoria, row_bia] ! 0)"
    by code_simp
  have v2: "accepted ([row_ana, row_no_categoria, row_bia] ! 2)"
    by code_simp
  have h2: "\<forall>j < length [row_ana, row_no_categoria, row_bia].
              j \<noteq> 1 \<longrightarrow> accepted ([row_ana, row_no_categoria, row_bia] ! j)"
  proof (intro allI impI)
    fix j :: nat
    assume "j < length [row_ana, row_no_categoria, row_bia]" and "j \<noteq> 1"
    then have "j = 0 \<or> j = 2" by auto
    with v0 v2 show "accepted ([row_ana, row_no_categoria, row_bia] ! j)" by auto
  qed
  have h3: "\<not> blank ([row_ana, row_no_categoria, row_bia] ! 1)"
    by (simp add: blank_def row_no_categoria_def)
  have h4: "parse_row ([row_ana, row_no_categoria, row_bia] ! 1) = Inl (Msg campos_vazios)"
    by (simp add: parse_row_def unpack4_def row_no_categoria_def)
  have l: "label ([row_ana, row_no_categoria, row_bia] ! 1) = CStr ''Mesa''"
    by (simp add: label_def row_no_categoria_def)
  note t1 = conjunct1[OF row_numbering[where env = fill_fails and url = "''u''"
      and ?tr1.0 = "[Report_progress (''Acessando '' @ ''u'') 0 0, Driver_get ''u'']"
      and sheet = "[header_row, row_blank, row_ana, row_bia, row_no_categoria]"
      and ?tr2.0 = tr_start4]]
  note t2 = conjunct2[OF row_numbering[where k = 1
      and rows = "[row_ana, row_no_categoria, row_bia]"
      and e = "Msg campos_vazios" and url = "''u''" and header = header_row]]
  have a: "case processar_planilha fill_fails ''u''
              (Inr [header_row, row_blank, row_ana, row_bia, row_no_categoria]) of
         (st, tr) \<Rightarrow>
           map (\<lambda>d. (linha d, d_produto d)) (take (erro st) (erros_detalhados st))
             = failed_lines fill_fails (tl [header_row, row_blank, row_ana, row_bia, row_no_categoria])
                 (stats0\<lparr>total := length (tl [header_row, row_blank, row_ana, row_bia,
                                                 row_no_categoria])\<rparr>, tr_start4)"
    by (rule mp[OF t1 conjI[OF g1 g2]])
  have b: "fst (processar_planilha always_ok ''u''
             (Inr (header_row # [row_ana, row_no_categoria, row_bia])))
       = \<lparr>total = 3, sucesso = 2, erro = 1,
          erros_detalhados = [\<lparr>linha = 3, d_produto = CStr ''Mesa'',
                                d_erro = Msg campos_vazios\<rparr>]\<rparr>"
    using conjunct1[OF mp[OF t2 conjI[OF h1 conjI[OF h2 conjI[OF h3 h4]]]]] l by simp
  show ?thesis
    by (intro conjI g1 g2 a g3 h1 v0 v2 h3 h4 b)
qed

text \<open>The claim C7 as written speaks of valid rows. Of three rows that are valid in the
  words of the specification, the first with the integer 0 as quantity, the second has
  its category emptied: the run counts one success and two failures, and the first
  entry is on line 2, not on line 3, the line of the emptied row.\<close>

theorem row_numbering_counterexample:
  "spec_valid row_zero \<and> spec_valid row_caio \<and> spec_valid row_ana
   \<and> row_no_categoria = row_caio[3 := CNone]
   \<and> fst (processar_planilha always_ok ''u''
             (Inr [header_row, row_zero, row_no_categoria, row_ana]))
       = \<lparr>total = 3, sucesso = 1, erro = 2,
          erros_detalhados =
            [\<lparr>linha = 2, d_produto = CStr ''Sofa'', d_erro = Msg campos_vazios\<rparr>,
             \<lparr>linha = 3, d_produto = CStr ''Mesa'', d_erro = Msg campos_vazios\<rparr>]\<rparr>"
  by code_simp

subsection \<open>Closing the browser\<close>

text \<open>Neither the navigation nor the row loop closes the browser.\<close>

lemma preencher_no_quit:
  "count_calls Driver_quit (snd (preencher_produto env p tr)) = count_calls Driver_quit tr"
  by (simp add: preencher_produto_def fill_campo_texto_def select_categoria_def
        submit_form_def limpar_form_def perform_def count_calls_Cons split: option.splits)

lemma process_row_no_quit:
  "count_calls Driver_quit (snd (process_row env i r (st, tr))) = count_calls Driver_quit tr"
proof (cases "blank r")
  case True
  then show ?thesis by (simp add: process_row_def)
next
  case False
  show ?thesis
  proof (cases "parse_row r")
    case (Inl e)
    from process_row_parse_error[OF False Inl, of env i st tr] show ?thesis by simp
  next
    case (Inr x)
    obtain product p where x: "x = (product, p)" by (cases x)
    define t1 where "t1 = tr @ [Report_progress
        (''Processando: '' @ cliente product @ '' - '' @ produto product) i (total st)]"
    obtain ok t2 where pp: "preencher_produto env product t1 = (ok, t2)"
      by (cases "preencher_produto env product t1")
    have "count_calls Driver_quit t2 = count_calls Driver_quit tr"
      using preencher_no_quit[of env product t1] pp by (simp add: t1_def count_calls_Cons)
    with False Inr x pp show ?thesis
      by (cases ok) (simp_all add: process_row_def row_try_def report_progress_def perform_def
            t1_def count_calls_Cons split: option.splits)
  qed
qed

lemma process_rows_no_quit:
  "count_calls Driver_quit (snd (process_rows env i rs (st, tr))) = count_calls Driver_quit tr"
proof (induction rs arbitrary: i st tr)
  case Nil
  show ?case by simp
next
  case (Cons r rs)
  obtain st' tr' where s: "process_row env i r (st, tr) = (st', tr')"
    by (cases "process_row env i r (st, tr)")
  from process_row_no_quit[of env i r st tr] s
  have "count_calls Driver_quit tr' = count_calls Driver_quit tr" by simp
  with Cons.IH[of "Suc i" st' tr'] s show ?case by simp
qed

lemma navigate_no_quit:
  "count_calls Driver_quit (snd (navigate env url tr)) = count_calls Driver_quit tr"
  by (simp add: navigate_def report_progress_def perform_def count_calls_Cons
        split: option.splits)

text \<open>Cutting the loop after \<open>k\<close> rows and resuming it is the loop; without a stop
  request the worker closes the browser once.\<close>

lemma process_rows_take_drop:
  "process_rows env (Suc k) (drop k rows) (process_rows env 1 (take k rows) s)
     = process_rows env 1 rows s"
proof (cases "k \<le> length rows")
  case True
  then have "1 + length (take k rows) = Suc k" by simp
  with process_rows_append[of env 1 "take k rows" "drop k rows" s] show ?thesis by simp
next
  case False
  then show ?thesis by simp
qed

lemma processar_planilha_no_quit:
  "count_calls Driver_quit (snd (processar_planilha env url wb)) = 0"
proof -
  obtain e tr where n: "navigate env url [] = (e, tr)"
    by (cases "navigate env url []")
  have q: "count_calls Driver_quit tr = 0"
    using navigate_no_quit[of env url "[]"] n by simp
  show ?thesis
  proof (cases e)
    case (Some m)
    with n q show ?thesis by (simp add: processar_planilha_def processar_body_def)
  next
    case None
    show ?thesis
    proof (cases wb)
      case (Inl m)
      with None n q show ?thesis by (simp add: processar_planilha_def processar_body_def)
    next
      case (Inr sheet)
      define st1 where "st1 = stats0\<lparr>total := length (tl sheet)\<rparr>"
      define t1 where "t1 = tr @ [Report_progress (msg_iniciando (length (tl sheet))) 0 0]"
      obtain st2 tr2 where loop: "process_rows env 1 (tl sheet) (st1, t1) = (st2, tr2)"
        by (cases "process_rows env 1 (tl sheet) (st1, t1)")
      have "count_calls Driver_quit tr2 = 0"
        using process_rows_no_quit[of env 1 "tl sheet" st1 t1] loop q
        by (simp add: t1_def count_calls_Cons)
      with None n q Inr loop show ?thesis
        by (simp add: processar_planilha_def processar_body_def report_progress_def perform_def
              Let_def st1_def t1_def count_calls_Cons split: option.splits)
    qed
  qed
qed

lemma run_automation_quit_once:
  "count_calls Driver_quit (snd (snd (run_automation env url wb))) = 1"
  using processar_planilha_no_quit[of env url wb]
  by (cases "processar_planilha env url wb")
     (simp add: run_automation_def fechar_def perform_def count_calls_Cons)

text \<open>
  What the code does on a stop request, for every world and every \<open>k\<close>. The request
  closes the browser and nothing else: the row loop reads no stop signal. When the
  request arrives after \<open>k\<close> rows, the loop still visits every remaining row, and every
  row that is not blank, before or after the request, is counted as one success or one
  failure; \<open>total\<close> stays the number of data rows. The browser is closed twice, once
  by the request and once by the \<^verbatim>\<open>finally\<close> block of the worker.
\<close>

lemma stop_not_observed:
  assumes "navigate env url [] = (None, tr1)"
    and "report_progress env (msg_iniciando (length (tl sheet))) 0 0 tr1 = (None, tr2)"
  shows "case run_automation_stop k env url (Inr sheet) of
           (es, ef, st, tr) \<Rightarrow>
             total st = length (tl sheet)
             \<and> sucesso st + erro st = length (filter (\<lambda>r. \<not> blank r) (tl sheet))
             \<and> count_calls Driver_quit tr = 2"
proof -
  define rows where "rows = tl sheet"
  define st1 where "st1 = stats0\<lparr>total := length rows\<rparr>"
  obtain sta tra where la: "process_rows env 1 (take k rows) (st1, tr2) = (sta, tra)"
    by (cases "process_rows env 1 (take k rows) (st1, tr2)")
  obtain es trs where stop: "stop_automation env tra = (es, trs)"
    by (cases "stop_automation env tra")
  obtain stb trb where lb: "process_rows env (Suc k) (drop k rows) (sta, trs) = (stb, trb)"
    by (cases "process_rows env (Suc k) (drop k rows) (sta, trs)")
  obtain e tr3 where fin: "report_progress env (msg_concluido stb) 0 0 trb = (e, tr3)"
    by (cases "report_progress env (msg_concluido stb) 0 0 trb")
  obtain ef tr4 where clo: "fechar env tr3 = (ef, tr4)"
    by (cases "fechar env tr3")
  have q1: "count_calls Driver_quit tr1 = 0"
    using navigate_no_quit[of env url "[]"] assms(1) by simp
  have q2: "count_calls Driver_quit tr2 = 0"
    using assms(2) q1 by (auto simp: report_progress_def perform_def count_calls_Cons)
  have qa: "count_calls Driver_quit tra = 0"
    using process_rows_no_quit[of env 1 "take k rows" st1 tr2] la q2 by simp
  have qs: "count_calls Driver_quit trs = 1"
    using qa stop by (auto simp: stop_automation_def fechar_def perform_def count_calls_Cons)
  have qb: "count_calls Driver_quit trb = 1"
    using process_rows_no_quit[of env "Suc k" "drop k rows" sta trs] lb qs by simp
  have q3: "count_calls Driver_quit tr3 = 1"
    using fin qb by (auto simp: report_progress_def perform_def count_calls_Cons)
  have qf: "count_calls Driver_quit tr4 = 2"
    using q3 clo by (auto simp: fechar_def perform_def count_calls_Cons)
  have ta: "total sta = length rows"
    using process_rows_total[of env 1 "take k rows" "(st1, tr2)"] la by (simp add: st1_def)
  have tb: "total stb = length rows"
    using process_rows_total[of env "Suc k" "drop k rows" "(sta, trs)"] lb ta by simp
  have ca: "sucesso sta + erro sta = length (filter (\<lambda>r. \<not> blank r) (take k rows))"
    using process_rows_counts[of env 1 "take k rows" "(st1, tr2)"] la
    by (simp add: st1_def stats0_def)
  have cb: "sucesso stb + erro stb
              = sucesso sta + erro sta + length (filter (\<lambda>r. \<not> blank r) (drop k rows))"
    using process_rows_counts[of env "Suc k" "drop k rows" "(sta, trs)"] lb by simp
  have "length (filter (\<lambda>r. \<not> blank r) (take k rows))
          + length (filter (\<lambda>r. \<not> blank r) (drop k rows))
        = length (filter (\<lambda>r. \<not> blank r) (take k rows @ drop k rows))"
    by (simp only: filter_append length_append)
  then have cc: "sucesso stb + erro stb = length (filter (\<lambda>r. \<not> blank r) rows)"
    using ca cb by simp
  have run: "run_automation_stop k env url (Inr sheet)
               = (es, ef,
                  (case e of
                     None \<Rightarrow> stb
                   | Some m \<Rightarrow>
                       stb\<lparr>erros_detalhados := erros_detalhados stb
                              @ [\<lparr>linha = 0, d_produto = CStr erro_critico, d_erro = m\<rparr>]\<rparr>),
                  tr4)"
    using assms la stop lb fin clo
    by (simp add: run_automation_stop_def processar_body_stop_def Let_def rows_def st1_def)
  show ?thesis
    unfolding run using tb cc qf by (simp add: rows_def split: option.splits)
qed

text \<open>
  C9. The claim asks that a stop request after row 3 of 10 ends the processing, with
  \<open>succeeded + failed = 3\<close> and one release of the browser. Here are ten rows that
  would all succeed, a stop request after the third, and a browser that raises on every
  call once it is closed: the loop goes on, the seven remaining rows are driven and
  counted as failed (\<open>erro = 7\<close>, so \<open>sucesso + erro = 10\<close>), and
  \<^verbatim>\<open>driver.quit()\<close> is called twice.
\<close>

theorem stop_request_ignored:
  "(case run_automation_stop 3 dead_after_quit ''u'' (Inr (header_row # ten_rows)) of
      (es, ef, st, tr) \<Rightarrow>
        total st = 10 \<and> sucesso st = 3 \<and> erro st = 7 \<and> sucesso st + erro st \<noteq> 3
        \<and> map d_erro (erros_detalhados st) = replicate 7 (Msg ''Falha ao submeter'')
        \<and> count_calls Limpar_form tr = 10
        \<and> count_calls Driver_quit tr = 2 \<and> count_calls Driver_quit tr \<noteq> 1)"
  by code_simp

end
